theory Spec2Isabelle
  imports Complex_Main "HOL-Library.Sublist"
begin

section \<open>JavaScript values\<close>

text \<open>
  A finite JavaScript number is idealised as a \<^typ>\<open>real\<close>: rounding of doubles and the
  sign of zero are not modelled. The two places where the program divides by a number
  that can be zero are written out, because HOL's \<open>x / 0 = 0\<close> is not what JavaScript
  computes: \<open>n / 0\<close> is \<open>Infinity\<close>, \<open>-Infinity\<close> or \<open>NaN\<close>.
  \<open>undefined\<close> is \<open>None\<close>; a string is the list of its UTF-8 bytes. Objects have the fields their
  TypeScript types declare: a usage object carries its three counters as numbers.
\<close>

datatype jsnum = Fin real | PosInfinity | NegInfinity | NaN

definition js_div :: "real \<Rightarrow> real \<Rightarrow> jsnum" where
  "js_div a b =
     (if b = 0
      then (if a = 0 then NaN else if 0 < a then PosInfinity else NegInfinity)
      else Fin (a / b))"

text \<open>\<open>x || 0\<close> on a number: only \<open>NaN\<close> and \<open>0\<close> are falsy, the infinities are kept.\<close>

definition or_zero :: "jsnum \<Rightarrow> jsnum" where
  "or_zero x = (case x of NaN \<Rightarrow> Fin 0 | _ \<Rightarrow> x)"

text \<open>\<open>x || d\<close> on an optional number, string and boolean.\<close>

definition num_or :: "real option \<Rightarrow> real \<Rightarrow> real" where
  "num_or x d = (case x of None \<Rightarrow> d | Some v \<Rightarrow> if v = 0 then d else v)"

definition str_or :: "string option \<Rightarrow> string \<Rightarrow> string" where
  "str_or x d = (case x of None \<Rightarrow> d | Some s \<Rightarrow> if s = [] then d else s)"

definition bool_or :: "bool option \<Rightarrow> bool \<Rightarrow> bool" where
  "bool_or x d = (case x of None \<Rightarrow> d | Some b \<Rightarrow> if b then True else d)"

definition truthy_str :: "string option \<Rightarrow> bool" where
  "truthy_str x = (case x of None \<Rightarrow> False | Some s \<Rightarrow> s \<noteq> [])"

text \<open>A template literal prints an undefined value as \<open>undefined\<close>.\<close>

definition template_str :: "string option \<Rightarrow> string" where
  "template_str x = (case x of None \<Rightarrow> ''undefined'' | Some s \<Rightarrow> s)"

fun includes_str :: "string \<Rightarrow> string \<Rightarrow> bool" where
  "includes_str [] sub = (sub = [])"
| "includes_str (c # cs) sub = (prefix sub (c # cs) \<or> includes_str cs sub)"

definition startsWith :: "string \<Rightarrow> string \<Rightarrow> bool" where
  "startsWith s p = prefix p s"

text \<open>\<open>s.split(c)\<close> for a one-character separator: never the empty list.\<close>

fun split_str :: "string \<Rightarrow> char \<Rightarrow> string list" where
  "split_str [] c = [[]]"
| "split_str (x # xs) c =
     (if x = c then [] # split_str xs c
      else (case split_str xs c of [] \<Rightarrow> [[x]] | y # ys \<Rightarrow> (x # y) # ys))"

text \<open>
  A byte list has the shape of UTF-8 when every lead byte is followed by the number of
  continuation bytes it announces. Every JavaScript string has such an encoding (an
  unpaired surrogate as three bytes).
\<close>

definition continuation :: "char \<Rightarrow> bool" where
  "continuation c = (0x80 \<le> (of_char c :: nat) \<and> (of_char c :: nat) < 0xC0)"

fun utf8 :: "string \<Rightarrow> bool" where
  "utf8 [] = True"
| "utf8 (a # cs) =
     (if (of_char a :: nat) < 0x80 then utf8 cs
      else if 0xC2 \<le> (of_char a :: nat) \<and> (of_char a :: nat) < 0xE0
        then 1 \<le> length cs \<and> list_all continuation (take 1 cs) \<and> utf8 (drop 1 cs)
      else if 0xE0 \<le> (of_char a :: nat) \<and> (of_char a :: nat) < 0xF0
        then 2 \<le> length cs \<and> list_all continuation (take 2 cs) \<and> utf8 (drop 2 cs)
      else if 0xF0 \<le> (of_char a :: nat) \<and> (of_char a :: nat) < 0xF5
        then 3 \<le> length cs \<and> list_all continuation (take 3 cs) \<and> utf8 (drop 3 cs)
      else False)"

text \<open>
  \<open>s.trim()\<close> removes the WhiteSpace and LineTerminator code points from both ends:
  U+0009 to U+000D, U+0020, U+00A0, U+1680, U+2000 to U+200A, U+2028, U+2029, U+202F,
  U+205F, U+3000 and U+FEFF, here in their UTF-8 encodings.
\<close>

definition white_space :: "string list" where
  "white_space =
     [[CHR 0x09], [CHR 0x0A], [CHR 0x0B], [CHR 0x0C], [CHR 0x0D], [CHR 0x20],
      [CHR 0xC2, CHR 0xA0],
      [CHR 0xE1, CHR 0x9A, CHR 0x80],
      [CHR 0xE2, CHR 0x80, CHR 0x80], [CHR 0xE2, CHR 0x80, CHR 0x81],
      [CHR 0xE2, CHR 0x80, CHR 0x82], [CHR 0xE2, CHR 0x80, CHR 0x83],
      [CHR 0xE2, CHR 0x80, CHR 0x84], [CHR 0xE2, CHR 0x80, CHR 0x85],
      [CHR 0xE2, CHR 0x80, CHR 0x86], [CHR 0xE2, CHR 0x80, CHR 0x87],
      [CHR 0xE2, CHR 0x80, CHR 0x88], [CHR 0xE2, CHR 0x80, CHR 0x89],
      [CHR 0xE2, CHR 0x80, CHR 0x8A],
      [CHR 0xE2, CHR 0x80, CHR 0xA8], [CHR 0xE2, CHR 0x80, CHR 0xA9],
      [CHR 0xE2, CHR 0x80, CHR 0xAF],
      [CHR 0xE2, CHR 0x81, CHR 0x9F],
      [CHR 0xE3, CHR 0x80, CHR 0x80],
      [CHR 0xEF, CHR 0xBB, CHR 0xBF]]"

text \<open>Removes, as long as there is one, a leading occurrence of one of the given words.\<close>

fun strip_prefixes :: "string list \<Rightarrow> string \<Rightarrow> string" where
  "strip_prefixes ws [] = []"
| "strip_prefixes ws (a # cs) =
     (case find (\<lambda>w. w \<noteq> [] \<and> prefix w (a # cs)) ws of
        Some w \<Rightarrow> strip_prefixes ws (drop (length w - 1) cs)
      | None \<Rightarrow> a # cs)"

definition trim :: "string \<Rightarrow> string" where
  "trim s = rev (strip_prefixes (map rev white_space) (rev (strip_prefixes white_space s)))"

fun digits :: "nat \<Rightarrow> string" where
  "digits n =
     (if n < 10 then [char_of (48 + n)]
      else digits (n div 10) @ [char_of (48 + n mod 10)])"

text \<open>
  \<open>x.toFixed(0)\<close>: the sign, then the integer nearest to \<open>|x|\<close>, the larger one on a
  tie (numbers from \<open>1e21\<close> on, which print in exponent form, are outside the model).
\<close>

definition toFixed0 :: "real \<Rightarrow> string" where
  "toFixed0 x =
     (if x < 0 then ''-'' @ digits (nat \<lfloor>- x + 1 / 2\<rfloor>)
      else digits (nat \<lfloor>x + 1 / 2\<rfloor>))"

fun join :: "string list \<Rightarrow> string \<Rightarrow> string" where
  "join [] sep = []"
| "join [x] sep = x"
| "join (x # y # ys) sep = x @ sep @ join (y # ys) sep"

text \<open>
  A JavaScript \<open>Map\<close> keeps its keys in insertion order: an association list in which
  \<open>set\<close> on a present key replaces the value in place and on a new key appends.
\<close>

fun map_set :: "'k \<Rightarrow> 'v \<Rightarrow> ('k \<times> 'v) list \<Rightarrow> ('k \<times> 'v) list" where
  "map_set k v [] = [(k, v)]"
| "map_set k v ((k', v') # kvs) =
     (if k = k' then (k, v) # kvs else (k', v') # map_set k v kvs)"

definition map_keys :: "('k \<times> 'v) list \<Rightarrow> 'k list" where
  "map_keys kvs = map fst kvs"

definition map_values :: "('k \<times> 'v) list \<Rightarrow> 'v list" where
  "map_values kvs = map snd kvs"

definition map_has :: "('k \<times> 'v) list \<Rightarrow> 'k \<Rightarrow> bool" where
  "map_has kvs k = (k \<in> set (map fst kvs))"

definition map_get :: "('k \<times> 'v) list \<Rightarrow> 'k \<Rightarrow> 'v option" where
  "map_get kvs k = map_of kvs k"

section \<open>Data model (types/index.ts)\<close>

datatype provider_type = T_openai | T_anthropic | T_groq | T_ollama | T_custom

record Pricing =
  inputTokens :: real
  outputTokens :: real

record Capabilities =
  textGeneration :: bool
  codeGeneration :: bool
  imageAnalysis :: bool
  documentAnalysis :: bool
  functionCalling :: bool
  streaming :: bool

record Limits =
  limits_maxTokens :: real
  maxRequestsPerMinute :: real
  maxRequestsPerDay :: real

record LLMProvider =
  name :: string
  ptype :: provider_type
  models :: "string list"
  pricing :: Pricing
  capabilities :: Capabilities
  limits :: Limits

datatype role = User | Assistant | System

record ConversationMessage =
  role :: role
  content :: string
  timestamp :: int
  msg_provider :: "string option"
  msg_model :: "string option"
  tokens :: "real option"

record ConversationContext =
  conversationId :: string
  messages :: "ConversationMessage list"
  summary :: "string option"
  ctx_totalTokens :: real
  createdAt :: int
  lastUpdatedAt :: int

datatype file_type = F_pdf | F_image | F_text | F_code | F_document

record FileAttachment =
  file_id :: string
  file_name :: string
  file_type :: file_type
  file_size :: real
  file_url :: string

record RequestOptions =
  maxTokens :: "real option"
  temperature :: "real option"
  stream :: "bool option"
  systemPrompt :: "string option"

datatype priority = Low | Normal | High | Urgent

record RequestMetadata =
  command :: "string option"
  channel :: "string option"
  meta_timestamp :: int
  estimatedCost :: "real option"

record LLMRequest =
  req_id :: string
  userId :: string
  teamId :: string
  provider :: "string option"
  model :: "string option"
  prompt :: string
  req_context :: "ConversationContext option"
  files :: "FileAttachment list option"
  options :: RequestOptions
  priority :: priority
  metadata :: RequestMetadata

record Usage =
  promptTokens :: real
  completionTokens :: real
  totalTokens :: real
  cost :: real

record Performance =
  latency :: real
  throughput :: jsnum
  reliability :: real

record LLMResponse =
  resp_id :: string
  requestId :: string
  resp_provider :: string
  resp_model :: "string option"
  resp_content :: string
  usage :: Usage
  performance :: Performance
  resp_timestamp :: int
  resp_error :: "string option"

record Stats =
  totalRequests :: real
  stats_totalTokens :: real
  totalCost :: real
  averageLatency :: real
  successRate :: real
  lastUsed :: int

datatype period = Hour | Day | Week | Month

record ProviderStats =
  ps_provider :: string
  ps_model :: "string option"
  ps_stats :: Stats
  ps_period :: period

record ScoreEntry =
  e_provider :: string
  e_model :: string
  e_score :: real
  e_reasoning :: string

record Factors =
  f_cost :: real
  f_performance :: real
  f_capability :: real
  f_availability :: real

record SmartRoutingDecision =
  selectedProvider :: string
  selectedModel :: string
  reasoning :: string
  confidence :: real
  alternatives :: "ScoreEntry list"
  factors :: Factors

section \<open>Errors and the outside world\<close>

text \<open>
  Every \<open>throw\<close> is a value: the two errors \<open>executeRequest\<close> raises itself, the
  \<open>TypeError\<close> of reading a property of \<open>undefined\<close>, and whatever a client library
  or the HTTP call throws.
\<close>

datatype error =
  ProviderNotAvailable string
| UnsupportedProvider string
| TypeError string
| BackendError string

record raw_usage =
  prompt_tokens :: real
  completion_tokens :: real
  total_tokens :: real

record chat_message =
  m_role :: role
  m_content :: string

record chat_params =
  cp_model :: "string option"
  cp_messages :: "chat_message list"
  cp_max_tokens :: real
  cp_temperature :: real
  cp_stream :: bool

record anthropic_params =
  ap_model :: "string option"
  ap_messages :: "chat_message list"
  ap_max_tokens :: real
  ap_temperature :: real
  ap_system :: "string option"

record ollama_params =
  op_model :: "string option"
  op_messages :: "chat_message list"
  op_temperature :: real
  op_num_predict :: real

record custom_body =
  cb_model :: "string option"
  cb_messages :: "chat_message list"
  cb_max_tokens :: real
  cb_temperature :: real

text \<open>
  What the clients answer. A chat completion lists the content of each choice
  (\<open>None\<close> for a null content) and may carry usage; with \<open>stream: true\<close> the client
  returns a stream, which has no \<open>choices\<close>.
\<close>

datatype chat_completion =
  ChatCompletion "string option list" "raw_usage option"
| ChatStream

datatype content_block = TextBlock string | OtherBlock

record anthropic_message =
  am_content :: "content_block list"
  input_tokens :: real
  output_tokens :: real

record custom_data =
  data_choices :: "string option list"
  data_usage :: "raw_usage option"

record process_env =
  OPENAI_API_KEY :: "string option"
  OPENAI_ORG_ID :: "string option"
  ANTHROPIC_API_KEY :: "string option"
  GROQ_API_KEY :: "string option"
  OLLAMA_BASE_URL :: "string option"
  CUSTOM_LLM_ENDPOINTS :: "string option"
  CUSTOM_API_KEY :: "string option"

text \<open>
  One call of \<open>processRequest\<close> sees the world through this record: the answers of
  the four clients and of \<open>axios.post\<close> (URL, body, Authorization header), the two
  differences of \<open>Date.now()\<close> it measures, the clock, the random suffix of the
  response id and the environment.
\<close>

record world =
  openai_create :: "chat_params \<Rightarrow> error + chat_completion"
  anthropic_create :: "anthropic_params \<Rightarrow> error + anthropic_message"
  groq_create :: "chat_params \<Rightarrow> error + chat_completion"
  ollama_chat :: "ollama_params \<Rightarrow> error + string"
  axios_post :: "string \<Rightarrow> custom_body \<Rightarrow> string \<Rightarrow> error + custom_data"
  exec_latency :: real
  total_latency :: real
  now :: int
  random_suffix :: string
  env :: process_env

section \<open>LLMProviderManager: the registry\<close>

datatype provider_instance = SdkClient | CustomEndpoint string

record LLMProviderManager =
  providers :: "(string \<times> provider_instance) list"
  providerConfigs :: "(string \<times> LLMProvider) list"
  stats :: "(string \<times> ProviderStats) list"

definition register_endpoint ::
  "(string \<times> provider_instance) list \<Rightarrow> string \<Rightarrow> (string \<times> provider_instance) list" where
  "register_endpoint ps endpoint =
     (case split_str endpoint CHR '':'' of
        nm # url # _ \<Rightarrow>
          (if nm \<noteq> [] \<and> url \<noteq> []
           then map_set (''custom_'' @ nm)
                  (CustomEndpoint (if includes_str url ''://'' then url else ''http://'' @ url)) ps
           else ps)
      | _ \<Rightarrow> ps)"

definition initializeCustomEndpoints ::
  "process_env \<Rightarrow> (string \<times> provider_instance) list \<Rightarrow> (string \<times> provider_instance) list" where
  "initializeCustomEndpoints e ps =
     (case CUSTOM_LLM_ENDPOINTS e of
        None \<Rightarrow> ps
      | Some customEndpoints \<Rightarrow>
          (if customEndpoints = [] then ps
           else foldl register_endpoint ps (split_str customEndpoints CHR '','')))"

definition initializeProviders :: "process_env \<Rightarrow> (string \<times> provider_instance) list" where
  "initializeProviders e =
     (let ps0 = [];
          ps1 = (if truthy_str (OPENAI_API_KEY e) then map_set ''openai'' SdkClient ps0 else ps0);
          ps2 = (if truthy_str (ANTHROPIC_API_KEY e) then map_set ''anthropic'' SdkClient ps1 else ps1);
          ps3 = (if truthy_str (GROQ_API_KEY e) then map_set ''groq'' SdkClient ps2 else ps2);
          ps4 = (if truthy_str (OLLAMA_BASE_URL e) then map_set ''ollama'' SdkClient ps3 else ps3)
      in initializeCustomEndpoints e ps4)"

definition openai_config :: LLMProvider where
  "openai_config =
     \<lparr>name = ''OpenAI'', ptype = T_openai,
      models = [''gpt-4'', ''gpt-4-turbo'', ''gpt-3.5-turbo'', ''gpt-4o'', ''gpt-4o-mini''],
      pricing = \<lparr>inputTokens = 0.03, outputTokens = 0.06\<rparr>,
      capabilities = \<lparr>textGeneration = True, codeGeneration = True, imageAnalysis = True,
        documentAnalysis = True, functionCalling = True, streaming = True\<rparr>,
      limits = \<lparr>limits_maxTokens = 128000, maxRequestsPerMinute = 500,
        maxRequestsPerDay = 10000\<rparr>\<rparr>"

definition anthropic_config :: LLMProvider where
  "anthropic_config =
     \<lparr>name = ''Anthropic'', ptype = T_anthropic,
      models = [''claude-3-5-sonnet-20241022'', ''claude-3-haiku-20240307'',
        ''claude-3-opus-20240229''],
      pricing = \<lparr>inputTokens = 0.015, outputTokens = 0.075\<rparr>,
      capabilities = \<lparr>textGeneration = True, codeGeneration = True, imageAnalysis = True,
        documentAnalysis = True, functionCalling = True, streaming = True\<rparr>,
      limits = \<lparr>limits_maxTokens = 200000, maxRequestsPerMinute = 50,
        maxRequestsPerDay = 1000\<rparr>\<rparr>"

definition groq_config :: LLMProvider where
  "groq_config =
     \<lparr>name = ''Groq'', ptype = T_groq,
      models = [''llama-3.1-405b-reasoning'', ''llama-3.1-70b-versatile'',
        ''mixtral-8x7b-32768''],
      pricing = \<lparr>inputTokens = 0.0005, outputTokens = 0.0008\<rparr>,
      capabilities = \<lparr>textGeneration = True, codeGeneration = True, imageAnalysis = False,
        documentAnalysis = True, functionCalling = True, streaming = True\<rparr>,
      limits = \<lparr>limits_maxTokens = 32768, maxRequestsPerMinute = 30,
        maxRequestsPerDay = 14400\<rparr>\<rparr>"

definition ollama_config :: LLMProvider where
  "ollama_config =
     \<lparr>name = ''Ollama'', ptype = T_ollama,
      models = [''llama2'', ''codellama'', ''mistral'', ''neural-chat''],
      pricing = \<lparr>inputTokens = 0, outputTokens = 0\<rparr>,
      capabilities = \<lparr>textGeneration = True, codeGeneration = True, imageAnalysis = False,
        documentAnalysis = True, functionCalling = False, streaming = True\<rparr>,
      limits = \<lparr>limits_maxTokens = 4096, maxRequestsPerMinute = 1000,
        maxRequestsPerDay = 100000\<rparr>\<rparr>"

definition initializeProviderConfigs :: "(string \<times> LLMProvider) list" where
  "initializeProviderConfigs =
     map_set ''ollama'' ollama_config
       (map_set ''groq'' groq_config
         (map_set ''anthropic'' anthropic_config
           (map_set ''openai'' openai_config [])))"

definition new_LLMProviderManager :: "process_env \<Rightarrow> LLMProviderManager" where
  "new_LLMProviderManager e =
     \<lparr>providers = initializeProviders e,
      providerConfigs = initializeProviderConfigs,
      stats = []\<rparr>"

definition getAvailableProviders :: "LLMProviderManager \<Rightarrow> LLMProvider list" where
  "getAvailableProviders st = map_values (providerConfigs st)"

definition getProviderStats :: "LLMProviderManager \<Rightarrow> ProviderStats list" where
  "getProviderStats st = map_values (stats st)"

definition isProviderAvailable :: "LLMProviderManager \<Rightarrow> string \<Rightarrow> bool" where
  "isProviderAvailable st p = map_has (providers st) p"

section \<open>LLMProviderManager: the adapters\<close>

record AdapterResult =
  a_content :: string
  a_usage :: "raw_usage option"

definition buildMessages :: "LLMRequest \<Rightarrow> chat_message list" where
  "buildMessages request =
     (case systemPrompt (options request) of
        None \<Rightarrow> []
      | Some sp \<Rightarrow> if sp = [] then [] else [\<lparr>m_role = System, m_content = sp\<rparr>])
     @ (case req_context request of
          None \<Rightarrow> []
        | Some c \<Rightarrow> map (\<lambda>msg. \<lparr>m_role = role msg, m_content = content msg\<rparr>) (messages c))
     @ [\<lparr>m_role = User, m_content = prompt request\<rparr>]"

definition buildAnthropicMessages :: "LLMRequest \<Rightarrow> chat_message list" where
  "buildAnthropicMessages request =
     (case req_context request of
        None \<Rightarrow> []
      | Some c \<Rightarrow> map (\<lambda>msg. \<lparr>m_role = role msg, m_content = content msg\<rparr>)
          (filter (\<lambda>msg. role msg \<noteq> System) (messages c)))
     @ [\<lparr>m_role = User, m_content = prompt request\<rparr>]"

text \<open>\<open>choices[0]?.message?.content || ''\<close>\<close>

definition first_content :: "string option list \<Rightarrow> string" where
  "first_content choices = (case choices of [] \<Rightarrow> [] | c # _ \<Rightarrow> str_or c [])"

text \<open>The object each adapter hands to its client.\<close>

definition openai_params :: "LLMRequest \<Rightarrow> string option \<Rightarrow> chat_params" where
  "openai_params request mdl =
     \<lparr>cp_model = mdl,
      cp_messages = buildMessages request,
      cp_max_tokens = num_or (maxTokens (options request)) 1000,
      cp_temperature = num_or (temperature (options request)) 0.7,
      cp_stream = bool_or (stream (options request)) False\<rparr>"

definition anthropic_request_params :: "LLMRequest \<Rightarrow> string option \<Rightarrow> anthropic_params" where
  "anthropic_request_params request mdl =
     \<lparr>ap_model = mdl,
      ap_messages = buildAnthropicMessages request,
      ap_max_tokens = num_or (maxTokens (options request)) 1000,
      ap_temperature = num_or (temperature (options request)) 0.7,
      ap_system = systemPrompt (options request)\<rparr>"

definition groq_params :: "LLMRequest \<Rightarrow> string option \<Rightarrow> chat_params" where
  "groq_params request mdl =
     \<lparr>cp_model = mdl,
      cp_messages = buildMessages request,
      cp_max_tokens = num_or (maxTokens (options request)) 1000,
      cp_temperature = num_or (temperature (options request)) 0.7,
      cp_stream = bool_or (stream (options request)) False\<rparr>"

definition ollama_request_params :: "LLMRequest \<Rightarrow> string option \<Rightarrow> ollama_params" where
  "ollama_request_params request mdl =
     \<lparr>op_model = mdl,
      op_messages = buildMessages request,
      op_temperature = num_or (temperature (options request)) 0.7,
      op_num_predict = num_or (maxTokens (options request)) 1000\<rparr>"

definition custom_request_body :: "LLMRequest \<Rightarrow> string option \<Rightarrow> custom_body" where
  "custom_request_body request mdl =
     \<lparr>cb_model = mdl,
      cb_messages = buildMessages request,
      cb_max_tokens = num_or (maxTokens (options request)) 1000,
      cb_temperature = num_or (temperature (options request)) 0.7\<rparr>"

definition chat_result :: "chat_completion \<Rightarrow> AdapterResult" where
  "chat_result completion =
     (case completion of
        ChatCompletion choices u \<Rightarrow> \<lparr>a_content = first_content choices, a_usage = u\<rparr>
      | ChatStream \<Rightarrow> \<lparr>a_content = [], a_usage = None\<rparr>)"

definition processOpenAIRequest ::
  "world \<Rightarrow> LLMRequest \<Rightarrow> string option \<Rightarrow> error + AdapterResult" where
  "processOpenAIRequest w request mdl =
     (case openai_create w (openai_params request mdl) of
        Inl e \<Rightarrow> Inl e
      | Inr completion \<Rightarrow> Inr (chat_result completion))"

definition processAnthropicRequest ::
  "world \<Rightarrow> LLMRequest \<Rightarrow> string option \<Rightarrow> error + AdapterResult" where
  "processAnthropicRequest w request mdl =
     (case anthropic_create w (anthropic_request_params request mdl) of
        Inl e \<Rightarrow> Inl e
      | Inr completion \<Rightarrow>
          Inr \<lparr>a_content =
                 (case am_content completion of TextBlock t # _ \<Rightarrow> t | _ \<Rightarrow> []),
               a_usage = Some \<lparr>prompt_tokens = input_tokens completion,
                 completion_tokens = output_tokens completion,
                 total_tokens = input_tokens completion + output_tokens completion\<rparr>\<rparr>)"

definition processGroqRequest ::
  "world \<Rightarrow> LLMRequest \<Rightarrow> string option \<Rightarrow> error + AdapterResult" where
  "processGroqRequest w request mdl =
     (case groq_create w (groq_params request mdl) of
        Inl e \<Rightarrow> Inl e
      | Inr completion \<Rightarrow> Inr (chat_result completion))"

definition processOllamaRequest ::
  "world \<Rightarrow> LLMRequest \<Rightarrow> string option \<Rightarrow> error + AdapterResult" where
  "processOllamaRequest w request mdl =
     (case ollama_chat w (ollama_request_params request mdl) of
        Inl e \<Rightarrow> Inl e
      | Inr response_content \<Rightarrow>
          Inr \<lparr>a_content = response_content,
               a_usage = Some \<lparr>prompt_tokens = 0, completion_tokens = 0, total_tokens = 0\<rparr>\<rparr>)"

definition baseURL :: "provider_instance \<Rightarrow> string option" where
  "baseURL endpoint = (case endpoint of CustomEndpoint u \<Rightarrow> Some u | SdkClient \<Rightarrow> None)"

definition processCustomRequest ::
  "world \<Rightarrow> provider_instance \<Rightarrow> LLMRequest \<Rightarrow> string option \<Rightarrow> error + AdapterResult" where
  "processCustomRequest w endpoint request mdl =
     (case axios_post w (template_str (baseURL endpoint) @ ''/chat/completions'')
             (custom_request_body request mdl)
             (''Bearer '' @ str_or (CUSTOM_API_KEY (env w)) []) of
        Inl e \<Rightarrow> Inl e
      | Inr data \<Rightarrow>
          Inr \<lparr>a_content = first_content (data_choices data),
               a_usage = Some (case data_usage data of
                   None \<Rightarrow> \<lparr>prompt_tokens = 0, completion_tokens = 0, total_tokens = 0\<rparr>
                 | Some u \<Rightarrow> u)\<rparr>)"

definition calculateCost :: "raw_usage option \<Rightarrow> Pricing option \<Rightarrow> real" where
  "calculateCost u pr =
     (case (u, pr) of
        (Some u', Some pr') \<Rightarrow>
          (let inputCost = (prompt_tokens u' / 1000) * inputTokens pr';
               outputCost = (completion_tokens u' / 1000) * outputTokens pr'
           in inputCost + outputCost)
      | _ \<Rightarrow> 0)"

text \<open>The \<open>switch\<close> of \<open>executeRequest\<close> on the provider's name.\<close>

definition callAdapter ::
  "world \<Rightarrow> provider_instance \<Rightarrow> LLMRequest \<Rightarrow> string \<Rightarrow> string option
     \<Rightarrow> error + AdapterResult" where
  "callAdapter w providerInstance request prov mdl =
     (if prov = ''openai'' then processOpenAIRequest w request mdl
      else if prov = ''anthropic'' then processAnthropicRequest w request mdl
      else if prov = ''groq'' then processGroqRequest w request mdl
      else if prov = ''ollama'' then processOllamaRequest w request mdl
      else if startsWith prov ''custom_''
        then processCustomRequest w providerInstance request mdl
      else Inl (UnsupportedProvider prov))"

text \<open>The response object \<open>executeRequest\<close> assembles from the adapter's result.\<close>

definition assembleResponse ::
  "LLMProviderManager \<Rightarrow> world \<Rightarrow> LLMRequest \<Rightarrow> string \<Rightarrow> string option
     \<Rightarrow> AdapterResult \<Rightarrow> LLMResponse" where
  "assembleResponse st w request prov mdl response =
     (let lat = exec_latency w;
          config = map_get (providerConfigs st) prov;
          cst = calculateCost (a_usage response) (map_option pricing config)
      in \<lparr>resp_id = ''resp_'' @ digits (nat (now w)) @ ''_'' @ random_suffix w,
          requestId = req_id request,
          resp_provider = prov,
          resp_model = mdl,
          resp_content = a_content response,
          usage = \<lparr>promptTokens = num_or (map_option prompt_tokens (a_usage response)) 0,
            completionTokens = num_or (map_option completion_tokens (a_usage response)) 0,
            totalTokens = num_or (map_option total_tokens (a_usage response)) 0,
            cost = cst\<rparr>,
          performance = \<lparr>latency = lat,
            throughput = or_zero (case a_usage response of
                None \<Rightarrow> NaN
              | Some u \<Rightarrow> js_div (total_tokens u) (lat / 1000)),
            reliability = 1.0\<rparr>,
          resp_timestamp = now w,
          resp_error = None\<rparr>)"

definition executeRequest ::
  "LLMProviderManager \<Rightarrow> world \<Rightarrow> LLMRequest \<Rightarrow> string \<Rightarrow> string option
     \<Rightarrow> error + LLMResponse" where
  "executeRequest st w request prov mdl =
     (case map_get (providers st) prov of
        None \<Rightarrow> Inl (ProviderNotAvailable prov)
      | Some providerInstance \<Rightarrow>
          (case callAdapter w providerInstance request prov mdl of
             Inl e \<Rightarrow> Inl e
           | Inr response \<Rightarrow> Inr (assembleResponse st w request prov mdl response)))"

section \<open>LLMProviderManager: routing, statistics, dispatch\<close>

definition stats_key :: "string \<Rightarrow> string \<Rightarrow> string" where
  "stats_key prov mdl = prov @ '':'' @ mdl"

record ProviderScore =
  total :: real
  score_reasoning :: string

definition costScore :: "LLMProvider \<Rightarrow> real" where
  "costScore config = 1 - (inputTokens (pricing config) + outputTokens (pricing config)) / 0.2"

text \<open>
  \<open>stats ? Math.min(1000 / averageLatency, 1) : 0.5\<close>; for an average of \<open>0\<close> the
  quotient is \<open>Infinity\<close> and the minimum is \<open>1\<close>.
\<close>

definition performanceScore :: "LLMProviderManager \<Rightarrow> string \<Rightarrow> string \<Rightarrow> real" where
  "performanceScore st prov mdl =
     (case map_get (stats st) (stats_key prov mdl) of
        Some s \<Rightarrow>
          (if averageLatency (ps_stats s) = 0 then 1
           else min (1000 / averageLatency (ps_stats s)) 1)
      | None \<Rightarrow> 0.5)"

definition capabilityScore :: "LLMRequest \<Rightarrow> LLMProvider \<Rightarrow> real" where
  "capabilityScore request config =
     (let c0 = 0.5;
          c1 = (if (case files request of None \<Rightarrow> False | Some fs \<Rightarrow> length fs \<noteq> 0)
                   \<and> documentAnalysis (capabilities config) then c0 + 0.3 else c0);
          c2 = (if includes_str (prompt request) ''code''
                   \<and> codeGeneration (capabilities config) then c1 + 0.2 else c1)
      in c2)"

definition availabilityScore :: "LLMProviderManager \<Rightarrow> string \<Rightarrow> real" where
  "availabilityScore st prov = (if map_has (providers st) prov then 1 else 0)"

definition calculateProviderScore ::
  "LLMProviderManager \<Rightarrow> LLMRequest \<Rightarrow> string \<Rightarrow> string \<Rightarrow> LLMProvider \<Rightarrow> ProviderScore" where
  "calculateProviderScore st request prov mdl config =
     (let score0 = 0;
          score1 = score0 + costScore config * 0.3;
          factors1 = [''cost: '' @ toFixed0 (costScore config * 100) @ ''%''];
          score2 = score1 + performanceScore st prov mdl * 0.4;
          factors2 = factors1
            @ [''performance: '' @ toFixed0 (performanceScore st prov mdl * 100) @ ''%''];
          score3 = score2 + capabilityScore request config * 0.2;
          factors3 = factors2
            @ [''capability: '' @ toFixed0 (capabilityScore request config * 100) @ ''%''];
          score4 = score3 + availabilityScore st prov * 0.1;
          factors4 = factors3
            @ [''availability: '' @ toFixed0 (availabilityScore st prov * 100) @ ''%'']
      in \<lparr>total = score4,
          score_reasoning = prov @ ''/'' @ mdl @ '' - '' @ join factors4 '', ''\<rparr>)"

text \<open>The two nested loops of \<open>smartRouting\<close> that fill \<open>scores\<close>.\<close>

definition provider_scores ::
  "LLMProviderManager \<Rightarrow> LLMRequest \<Rightarrow> string \<Rightarrow> ScoreEntry list" where
  "provider_scores st request prov =
     (case map_get (providerConfigs st) prov of
        None \<Rightarrow> []
      | Some config \<Rightarrow>
          map (\<lambda>mdl. let sc = calculateProviderScore st request prov mdl config
                     in \<lparr>e_provider = prov, e_model = mdl, e_score = total sc,
                         e_reasoning = score_reasoning sc\<rparr>)
            (models config))"

definition all_scores :: "LLMProviderManager \<Rightarrow> LLMRequest \<Rightarrow> ScoreEntry list" where
  "all_scores st request = concat (map (provider_scores st request) (map_keys (providers st)))"

text \<open>
  \<open>scores.sort((a, b) => b.score - a.score)\<close> is a stable sort by descending score;
  \<open>scores[0]\<close> of an empty array is \<open>undefined\<close>, and reading \<open>best.provider\<close> throws.
\<close>

definition smartRouting :: "LLMProviderManager \<Rightarrow> LLMRequest \<Rightarrow> error + SmartRoutingDecision" where
  "smartRouting st request =
     (case sort_key (\<lambda>e. - e_score e) (all_scores st request) of
        [] \<Rightarrow> Inl (TypeError ''Cannot read properties of undefined (reading 'provider')'')
      | best # rest \<Rightarrow>
          Inr \<lparr>selectedProvider = e_provider best,
               selectedModel = e_model best,
               reasoning = e_reasoning best,
               confidence = e_score best,
               alternatives = take 3 rest,
               factors = \<lparr>f_cost = 0.3, f_performance = 0.4, f_capability = 0.2,
                 f_availability = 0.1\<rparr>\<rparr>)"

definition updateStats ::
  "LLMProviderManager \<Rightarrow> string \<Rightarrow> string option \<Rightarrow> LLMResponse \<Rightarrow> real \<Rightarrow> int
     \<Rightarrow> LLMProviderManager" where
  "updateStats st prov mdl response lat date =
     (let key = stats_key prov (template_str mdl)
      in case map_get (stats st) key of
           Some existing \<Rightarrow>
             st\<lparr>stats := map_set key
                  (existing\<lparr>ps_stats := (ps_stats existing)
                     \<lparr>totalRequests := totalRequests (ps_stats existing) + 1,
                      stats_totalTokens :=
                        stats_totalTokens (ps_stats existing) + totalTokens (usage response),
                      totalCost := totalCost (ps_stats existing) + cost (usage response),
                      averageLatency := (averageLatency (ps_stats existing) + lat) / 2,
                      lastUsed := date\<rparr>\<rparr>)
                  (stats st)\<rparr>
         | None \<Rightarrow>
             st\<lparr>stats := map_set key
                  \<lparr>ps_provider = prov, ps_model = mdl,
                   ps_stats = \<lparr>totalRequests = 1,
                     stats_totalTokens = totalTokens (usage response),
                     totalCost = cost (usage response),
                     averageLatency = lat,
                     successRate = 1,
                     lastUsed = date\<rparr>,
                   ps_period = Day\<rparr>
                  (stats st)\<rparr>)"

text \<open>
  \<open>processRequest\<close> returns the response or the error it rethrows, and the manager
  with the statistics updated after a successful call.
\<close>

definition processRequest ::
  "LLMProviderManager \<Rightarrow> world \<Rightarrow> LLMRequest \<Rightarrow> (error + LLMResponse) \<times> LLMProviderManager" where
  "processRequest st w request =
     (let routed = (case smartRouting st request of
                      Inl e \<Rightarrow> Inl e
                    | Inr decision \<Rightarrow>
                        Inr (selectedProvider decision, Some (selectedModel decision)))
      in case (case provider request of
                 None \<Rightarrow> routed
               | Some p \<Rightarrow> if p = [] \<or> p = ''auto'' then routed else Inr (p, model request)) of
           Inl e \<Rightarrow> (Inl e, st)
         | Inr (prov, mdl) \<Rightarrow>
             (case executeRequest st w request prov mdl of
                Inl e \<Rightarrow> (Inl e, st)
              | Inr response \<Rightarrow>
                  (Inr response,
                   updateStats st prov mdl response (total_latency w) (now w))))"

section \<open>ConversationManager\<close>











section \<open>CommandProcessor: comparison mode\<close>

datatype CommandType =
  Ask | Compare | Analyze | Generate | Summarize | Translate | Code | Custom

record SlackCommand =
  c_type :: CommandType
  c_provider :: "string option"
  c_model :: "string option"
  c_prompt :: string
  c_files :: "string list option"

record SubscriptionLimits =
  monthlyRequests :: real
  maxTokensPerRequest :: real

record UserSubscription =
  sub_limits :: SubscriptionLimits
  sub_active :: bool

record ComparisonResult =
  cr_provider :: string
  cr_model :: string
  cr_response :: LLMResponse

record UsageUpdate =
  uu_requests :: nat
  uu_tokens :: real
  uu_cost :: real

text \<open>
  What \<open>processCompareCommand\<close> returns: \<open>success: false\<close> with its message, or
  \<open>success: true\<close> with the valid results its message lists (the rendering of the
  text is not modelled) and the usage it books on the subscription.
\<close>

datatype compare_reply =
  CompareFailure string
| CompareSuccess "ComparisonResult list" UsageUpdate

definition success :: "compare_reply \<Rightarrow> bool" where
  "success r = (case r of CompareSuccess _ _ \<Rightarrow> True | CompareFailure _ \<Rightarrow> False)"

definition validResults :: "compare_reply \<Rightarrow> ComparisonResult list" where
  "validResults r = (case r of CompareSuccess vs _ \<Rightarrow> vs | CompareFailure _ \<Rightarrow> [])"

definition compare_providers :: "string list" where
  "compare_providers = [''openai'', ''anthropic'', ''groq'']"

definition compare_models :: "string list" where
  "compare_models = [''gpt-4'', ''claude-3-5-sonnet-20241022'', ''llama-3.1-70b-versatile'']"

definition compare_request :: "LLMRequest \<Rightarrow> world \<Rightarrow> nat \<Rightarrow> LLMRequest" where
  "compare_request baseRequest w index =
     baseRequest\<lparr>req_id := ''comp_'' @ digits (nat (now w)) @ ''_'' @ digits index,
       provider := Some (compare_providers ! index),
       model := Some (compare_models ! index)\<rparr>"

text \<open>The body of one of the promises; \<open>null\<close> is \<open>None\<close>.\<close>

definition compare_one ::
  "LLMProviderManager \<Rightarrow> world \<Rightarrow> LLMRequest \<Rightarrow> nat
     \<Rightarrow> ComparisonResult option \<times> LLMProviderManager" where
  "compare_one st w baseRequest index =
     (if \<not> isProviderAvailable st (compare_providers ! index) then (None, st)
      else (case processRequest st w (compare_request baseRequest w index) of
              (Inr response, st') \<Rightarrow>
                (Some \<lparr>cr_provider = compare_providers ! index,
                   cr_model = compare_models ! index, cr_response = response\<rparr>, st')
            | (Inl e, st') \<Rightarrow> (None, st')))"

text \<open>
  \<open>Promise.all\<close> over the three promises: the results are in the order of the
  targets. Each call has its own world; the statistics are updated one call after
  the other, here in the order of the targets.
\<close>

fun compare_all ::
  "LLMProviderManager \<Rightarrow> (nat \<Rightarrow> world) \<Rightarrow> LLMRequest \<Rightarrow> nat list
     \<Rightarrow> ComparisonResult option list \<times> LLMProviderManager" where
  "compare_all st ws baseRequest [] = ([], st)"
| "compare_all st ws baseRequest (index # rest) =
     (case compare_one st (ws index) baseRequest index of
        (r, st') \<Rightarrow>
          (case compare_all st' ws baseRequest rest of
             (rs, st'') \<Rightarrow> (r # rs, st'')))"

definition compare_baseRequest ::
  "UserSubscription \<Rightarrow> SlackCommand \<Rightarrow> string \<Rightarrow> string \<Rightarrow> string \<Rightarrow> int \<Rightarrow> LLMRequest" where
  "compare_baseRequest sub cmd uid tid channelId date =
     \<lparr>req_id = [], userId = uid, teamId = tid, provider = None, model = None,
      prompt = c_prompt cmd, req_context = None, files = None,
      options = \<lparr>maxTokens = Some (min 500 (maxTokensPerRequest (sub_limits sub))),
        temperature = Some 0.7, stream = None, systemPrompt = None\<rparr>,
      priority = Normal,
      metadata = \<lparr>command = Some ''compare'', channel = Some channelId,
        meta_timestamp = date, estimatedCost = None\<rparr>\<rparr>"

definition processCompareCommand ::
  "LLMProviderManager \<Rightarrow> (nat \<Rightarrow> world) \<Rightarrow> int \<Rightarrow> UserSubscription option \<Rightarrow> SlackCommand
     \<Rightarrow> string \<Rightarrow> string \<Rightarrow> string \<Rightarrow> (error + compare_reply) \<times> LLMProviderManager" where
  "processCompareCommand st ws date subscription cmd uid tid channelId =
     (if trim (c_prompt cmd) = []
      then (Inr (CompareFailure ''Please provide a prompt to compare across models. Example: `/ai-compare Explain quantum computing`''), st)
      else (case subscription of
        None \<Rightarrow> (Inl (TypeError ''Cannot read properties of null (reading 'limits')''), st)
      | Some sub \<Rightarrow>
          (case compare_all st ws (compare_baseRequest sub cmd uid tid channelId date)
                  [0..<length compare_providers] of
             (results, st') \<Rightarrow>
               (let valid = map the (filter (\<lambda>r. r \<noteq> None) results)
                in if length valid = 0
                   then (Inr (CompareFailure ''No providers available for comparison. Please try again later.''), st')
                   else (Inr (CompareSuccess valid
                           \<lparr>uu_requests = length valid,
                            uu_tokens = foldl (\<lambda>sum r. sum + totalTokens (usage (cr_response r))) 0 valid,
                            uu_cost = foldl (\<lambda>sum r. sum + cost (usage (cr_response r))) 0 valid\<rparr>),
                         st')))))"

section \<open>Concrete scenarios\<close>

text \<open>Inputs on which the theorems below are exercised.\<close>

definition no_env :: process_env where
  "no_env = \<lparr>OPENAI_API_KEY = None, OPENAI_ORG_ID = None, ANTHROPIC_API_KEY = None,
     GROQ_API_KEY = None, OLLAMA_BASE_URL = None, CUSTOM_LLM_ENDPOINTS = None,
     CUSTOM_API_KEY = None\<rparr>"

text \<open>The three cloud backends of comparison mode are configured.\<close>

definition cloud_manager :: LLMProviderManager where
  "cloud_manager = new_LLMProviderManager
     (no_env\<lparr>OPENAI_API_KEY := Some ''sk-1'', ANTHROPIC_API_KEY := Some ''sk-2'',
        GROQ_API_KEY := Some ''sk-3''\<rparr>)"

text \<open>A reply whose reported total is not the sum of its parts.\<close>

definition reported_usage :: raw_usage where
  "reported_usage = \<lparr>prompt_tokens = 1, completion_tokens = 2, total_tokens = 5\<rparr>"

text \<open>
  OpenAI, Anthropic, Ollama and the custom endpoint answer, Groq is rate limited;
  the adapter call takes less than a millisecond.
\<close>

definition calm_world :: world where
  "calm_world =
     \<lparr>openai_create = (\<lambda>p. Inr (ChatCompletion [Some ''hi''] (Some reported_usage))),
      anthropic_create = (\<lambda>p. Inr \<lparr>am_content = [TextBlock ''hi''], input_tokens = 3,
        output_tokens = 4\<rparr>),
      groq_create = (\<lambda>p. Inl (BackendError ''rate limit'')),
      ollama_chat = (\<lambda>p. Inr ''hi''),
      axios_post = (\<lambda>url body auth. Inr \<lparr>data_choices = [Some ''hi''], data_usage = None\<rparr>),
      exec_latency = 0, total_latency = 1, now = 0, random_suffix = ''abc'',
      env = no_env\<rparr>"

text \<open>The same world, but OpenAI returns a stream, which carries no usage.\<close>

definition stream_world :: world where
  "stream_world = calm_world\<lparr>openai_create := (\<lambda>p. Inr ChatStream)\<rparr>"

definition plain_request :: LLMRequest where
  "plain_request =
     \<lparr>req_id = ''r1'', userId = ''u'', teamId = ''t'', provider = None, model = None,
      prompt = ''hello'', req_context = None, files = None,
      options = \<lparr>maxTokens = None, temperature = None, stream = None, systemPrompt = None\<rparr>,
      priority = Normal,
      metadata = \<lparr>command = None, channel = None, meta_timestamp = 0, estimatedCost = None\<rparr>\<rparr>"

definition openai_request :: LLMRequest where
  "openai_request = plain_request\<lparr>provider := Some ''openai'', model := Some ''gpt-4''\<rparr>"

definition anthropic_request :: LLMRequest where
  "anthropic_request =
     plain_request\<lparr>provider := Some ''anthropic'', model := Some ''claude-3-haiku-20240307''\<rparr>"

definition zero_options_request :: LLMRequest where
  "zero_options_request = plain_request\<lparr>options :=
     \<lparr>maxTokens = Some 0, temperature = Some 0, stream = None, systemPrompt = None\<rparr>\<rparr>"

definition openai_reply :: LLMResponse where
  "openai_reply = assembleResponse cloud_manager calm_world openai_request ''openai''
     (Some ''gpt-4'') \<lparr>a_content = ''hi'', a_usage = Some reported_usage\<rparr>"

definition stream_reply :: LLMResponse where
  "stream_reply = assembleResponse cloud_manager stream_world openai_request ''openai''
     (Some ''gpt-4'') \<lparr>a_content = [], a_usage = None\<rparr>"

definition anthropic_reply :: LLMResponse where
  "anthropic_reply = assembleResponse cloud_manager calm_world anthropic_request ''anthropic''
     (Some ''claude-3-haiku-20240307'')
     \<lparr>a_content = ''hi'', a_usage = Some \<lparr>prompt_tokens = 3, completion_tokens = 4,
        total_tokens = 3 + 4\<rparr>\<rparr>"

text \<open>OpenAI and a local Ollama are configured.\<close>

definition local_manager :: LLMProviderManager where
  "local_manager = new_LLMProviderManager
     (no_env\<lparr>OPENAI_API_KEY := Some ''sk-1'', OLLAMA_BASE_URL := Some ''http://localhost:11434''\<rparr>)"

text \<open>The same manager after one Ollama call that took 100 seconds.\<close>

definition slow_local_manager :: LLMProviderManager where
  "slow_local_manager = updateStats local_manager ''ollama'' (Some ''llama2'') openai_reply 100000 0"

text \<open>Only a custom endpoint is configured.\<close>

definition custom_env :: process_env where
  "custom_env = no_env\<lparr>CUSTOM_LLM_ENDPOINTS := Some ''local:localhost''\<rparr>"

definition custom_manager :: LLMProviderManager where
  "custom_manager = new_LLMProviderManager custom_env"

definition custom_request :: LLMRequest where
  "custom_request = plain_request\<lparr>provider := Some ''custom_local'', model := Some ''m''\<rparr>"

text \<open>OpenAI and a custom endpoint are configured.\<close>

definition mixed_env :: process_env where
  "mixed_env = no_env\<lparr>OPENAI_API_KEY := Some ''sk-1'',
     CUSTOM_LLM_ENDPOINTS := Some ''local:localhost''\<rparr>"

definition mixed_manager :: LLMProviderManager where
  "mixed_manager = new_LLMProviderManager mixed_env"

text \<open>Every call of a comparison sees the same world.\<close>

definition calm_worlds :: "nat \<Rightarrow> world" where
  "calm_worlds i = calm_world"

definition free_subscription :: UserSubscription where
  "free_subscription =
     \<lparr>sub_limits = \<lparr>monthlyRequests = 100, maxTokensPerRequest = 4000\<rparr>, sub_active = True\<rparr>"

definition compare_command :: SlackCommand where
  "compare_command = \<lparr>c_type = Compare, c_provider = None, c_model = None,
     c_prompt = ''hello'', c_files = None\<rparr>"




section \<open>Auxiliary facts\<close>

lemma map_get_map_set:
  "map_get (map_set k v kvs) k' = (if k' = k then Some v else map_get kvs k')"
  by (induction kvs) (auto simp: map_get_def)

lemma cloud_manager_providers:
  "providers cloud_manager =
     [(''openai'', SdkClient), (''anthropic'', SdkClient), (''groq'', SdkClient)]"
  by (simp add: cloud_manager_def new_LLMProviderManager_def initializeProviders_def
      initializeCustomEndpoints_def truthy_str_def no_env_def)

lemma cloud_manager_stats: "stats cloud_manager = []"
  by (simp add: cloud_manager_def new_LLMProviderManager_def)

lemma initial_configs:
  "map_get initializeProviderConfigs ''openai'' = Some openai_config"
  "map_get initializeProviderConfigs ''anthropic'' = Some anthropic_config"
  "map_get initializeProviderConfigs ''groq'' = Some groq_config"
  "map_get initializeProviderConfigs ''ollama'' = Some ollama_config"
  by (simp_all add: initializeProviderConfigs_def map_get_def)

lemma cloud_manager_configs: "providerConfigs cloud_manager = initializeProviderConfigs"
  by (simp add: cloud_manager_def new_LLMProviderManager_def)

subsection \<open>What a successful dispatch returns\<close>

lemma executeRequest_Inr:
  assumes "executeRequest st w request prov mdl = Inr resp"
  shows "\<exists>inst r. map_get (providers st) prov = Some inst
           \<and> callAdapter w inst request prov mdl = Inr r
           \<and> resp = assembleResponse st w request prov mdl r"
  using assms by (auto simp: executeRequest_def split: option.splits sum.splits)

lemma processRequest_Inr:
  assumes "fst (processRequest st w request) = Inr resp"
  shows "\<exists>prov mdl. executeRequest st w request prov mdl = Inr resp"
  using assms
  by (auto simp: processRequest_def Let_def split: option.splits sum.splits if_splits prod.splits)

lemma assembleResponse_target:
  "resp_provider (assembleResponse st w request prov mdl r) = prov"
  "resp_model (assembleResponse st w request prov mdl r) = mdl"
  by (simp_all add: assembleResponse_def Let_def)

lemma dispatch_response:
  assumes "fst (processRequest st w request) = Inr resp"
  shows "\<exists>inst r. map_get (providers st) (resp_provider resp) = Some inst
           \<and> callAdapter w inst request (resp_provider resp) (resp_model resp) = Inr r
           \<and> assembleResponse st w request (resp_provider resp) (resp_model resp) r = resp"
proof -
  from processRequest_Inr [OF assms] obtain prov mdl
    where "executeRequest st w request prov mdl = Inr resp" by blast
  from executeRequest_Inr [OF this] obtain inst r
    where a: "map_get (providers st) prov = Some inst"
      "callAdapter w inst request prov mdl = Inr r"
      "resp = assembleResponse st w request prov mdl r" by blast
  have p: "resp_provider resp = prov" "resp_model resp = mdl"
    unfolding a(3) by (rule assembleResponse_target)+
  show ?thesis unfolding p using a(1,2) a(3) [symmetric] by blast
qed

lemma assembleResponse_cost:
  "cost (usage (assembleResponse st w request prov mdl r)) =
     (case map_get (providerConfigs st) prov of
        None \<Rightarrow> 0
      | Some config \<Rightarrow>
          (promptTokens (usage (assembleResponse st w request prov mdl r)) / 1000)
             * inputTokens (pricing config)
          + (completionTokens (usage (assembleResponse st w request prov mdl r)) / 1000)
             * outputTokens (pricing config))"
  by (simp add: assembleResponse_def Let_def calculateCost_def num_or_def
      split: option.splits)

lemma assembleResponse_no_usage:
  "a_usage r = None \<Longrightarrow> cost (usage (assembleResponse st w request prov mdl r)) = 0"
  by (simp add: assembleResponse_def Let_def calculateCost_def)





subsection \<open>The scenarios, evaluated\<close>

lemma openai_dispatch:
  "fst (processRequest cloud_manager calm_world openai_request) = Inr openai_reply"
  by (simp add: processRequest_def executeRequest_def callAdapter_def processOpenAIRequest_def
      chat_result_def first_content_def str_or_def map_get_def cloud_manager_providers
      openai_request_def plain_request_def calm_world_def openai_reply_def)

lemma stream_adapter:
  "callAdapter stream_world SdkClient openai_request ''openai'' (Some ''gpt-4'')
     = Inr \<lparr>a_content = [], a_usage = None\<rparr>"
  by (simp add: callAdapter_def processOpenAIRequest_def chat_result_def stream_world_def
      calm_world_def)

lemma stream_dispatch:
  "fst (processRequest cloud_manager stream_world openai_request) = Inr stream_reply"
  using stream_adapter
  by (simp add: processRequest_def executeRequest_def map_get_def cloud_manager_providers
      openai_request_def plain_request_def stream_reply_def)

lemma stream_reply_target:
  "resp_provider stream_reply = ''openai''" "resp_model stream_reply = Some ''gpt-4''"
  unfolding stream_reply_def by (rule assembleResponse_target)+



lemma openai_reply_target:
  "resp_provider openai_reply = ''openai''" "resp_model openai_reply = Some ''gpt-4''"
  unfolding openai_reply_def by (rule assembleResponse_target)+


lemma cloud_manager_clients:
  "map_get (providers cloud_manager) ''openai'' = Some SdkClient"
  "map_get (providers cloud_manager) ''anthropic'' = Some SdkClient"
  by (simp_all add: cloud_manager_providers map_get_def)

lemma openai_reply_counters:
  "promptTokens (usage openai_reply) = 1"
  "completionTokens (usage openai_reply) = 2"
  "totalTokens (usage openai_reply) = 5"
  by (simp_all add: openai_reply_def assembleResponse_def Let_def num_or_def reported_usage_def)

lemma anthropic_reply_counters:
  "promptTokens (usage anthropic_reply) = 3"
  "completionTokens (usage anthropic_reply) = 4"
  "totalTokens (usage anthropic_reply) = 7"
  by (simp_all add: anthropic_reply_def assembleResponse_def Let_def num_or_def)

lemma openai_reply_cost: "cost (usage openai_reply) = 15 / 100000"
  by (simp add: openai_reply_def assembleResponse_def Let_def calculateCost_def
      cloud_manager_configs initial_configs openai_config_def reported_usage_def)

section \<open>Cost, usage counters and throughput of a dispatched request\<close>

text \<open>
  Claim C2. For every request that \<open>processRequest\<close> answers, the cost recorded on the
  response is \<open>(promptTokens / 1000) * inputPrice + (completionTokens / 1000) * outputPrice\<close>
  at the pricing of the backend that answered; it is \<open>0\<close> when that backend has no
  profile, and \<open>0\<close> when the adapter reports no usage.
\<close>

theorem dispatch_cost:
  assumes "fst (processRequest st w request) = Inr resp"
  shows "(case map_get (providerConfigs st) (resp_provider resp) of
            None \<Rightarrow> cost (usage resp) = 0
          | Some config \<Rightarrow>
              cost (usage resp) =
                (promptTokens (usage resp) / 1000) * inputTokens (pricing config)
                + (completionTokens (usage resp) / 1000) * outputTokens (pricing config))
         \<and> (map_get (providers st) (resp_provider resp) = Some inst \<longrightarrow>
            callAdapter w inst request (resp_provider resp) (resp_model resp) = Inr r \<longrightarrow>
            a_usage r = None \<longrightarrow> cost (usage resp) = 0)"
proof -
  from dispatch_response [OF assms] obtain inst' r'
    where a: "map_get (providers st) (resp_provider resp) = Some inst'"
      "callAdapter w inst' request (resp_provider resp) (resp_model resp) = Inr r'"
      "assembleResponse st w request (resp_provider resp) (resp_model resp) r' = resp"
    by blast
  have first: "(case map_get (providerConfigs st) (resp_provider resp) of
            None \<Rightarrow> cost (usage resp) = 0
          | Some config \<Rightarrow>
              cost (usage resp) =
                (promptTokens (usage resp) / 1000) * inputTokens (pricing config)
                + (completionTokens (usage resp) / 1000) * outputTokens (pricing config))"
    using assembleResponse_cost [of st w request "resp_provider resp" "resp_model resp" r']
    unfolding a(3) by (simp split: option.splits)
  have second: "map_get (providers st) (resp_provider resp) = Some inst \<longrightarrow>
            callAdapter w inst request (resp_provider resp) (resp_model resp) = Inr r \<longrightarrow>
            a_usage r = None \<longrightarrow> cost (usage resp) = 0"
  proof (intro impI)
    assume "map_get (providers st) (resp_provider resp) = Some inst"
      and "callAdapter w inst request (resp_provider resp) (resp_model resp) = Inr r"
      and n: "a_usage r = None"
    with a(1,2) have "r' = r" by simp
    with n have "a_usage r' = None" by simp
    from assembleResponse_no_usage [OF this, of st w request "resp_provider resp" "resp_model resp"]
    show "cost (usage resp) = 0" unfolding a(3) .
  qed
  from first second show ?thesis by (rule conjI)
qed

theorem dispatch_cost_witness:
  "fst (processRequest cloud_manager calm_world openai_request) = Inr openai_reply
   \<and> cost (usage openai_reply) = (1 / 1000) * 0.03 + (2 / 1000) * 0.06
   \<and> fst (processRequest cloud_manager stream_world openai_request) = Inr stream_reply
   \<and> cost (usage stream_reply) = 0"
proof -
  have c: "map_get (providerConfigs cloud_manager) (resp_provider openai_reply)
             = Some openai_config"
    by (simp only: openai_reply_target cloud_manager_configs initial_configs)
  from dispatch_cost [OF openai_dispatch, of SdkClient "\<lparr>a_content = ''hi'', a_usage = None\<rparr>"]
  have "case map_get (providerConfigs cloud_manager) (resp_provider openai_reply) of
            None \<Rightarrow> cost (usage openai_reply) = 0
          | Some config \<Rightarrow>
              cost (usage openai_reply) =
                (promptTokens (usage openai_reply) / 1000) * inputTokens (pricing config)
                + (completionTokens (usage openai_reply) / 1000) * outputTokens (pricing config)"
    by (rule conjunct1)
  then have "cost (usage openai_reply) = (1 / 1000) * inputTokens (pricing openai_config)
                + (2 / 1000) * outputTokens (pricing openai_config)"
    unfolding c openai_reply_counters by simp
  then have priced: "cost (usage openai_reply) = (1 / 1000) * 0.03 + (2 / 1000) * 0.06"
    by (simp add: openai_config_def)
  from dispatch_cost [OF stream_dispatch, of SdkClient "\<lparr>a_content = [], a_usage = None\<rparr>"]
  have "map_get (providers cloud_manager) (resp_provider stream_reply) = Some SdkClient \<longrightarrow>
          callAdapter stream_world SdkClient openai_request (resp_provider stream_reply)
            (resp_model stream_reply) = Inr \<lparr>a_content = [], a_usage = None\<rparr> \<longrightarrow>
          a_usage \<lparr>a_content = [], a_usage = None\<rparr> = None \<longrightarrow> cost (usage stream_reply) = 0"
    by (rule conjunct2)
  then have unreported: "cost (usage stream_reply) = 0"
    unfolding stream_reply_target using cloud_manager_clients(1) stream_adapter by simp
  from openai_dispatch priced stream_dispatch unreported show ?thesis by (intro conjI)
qed




lemma assembleResponse_throughput:
  "throughput (performance (assembleResponse st w request prov mdl r)) =
     (case a_usage r of
        None \<Rightarrow> Fin 0
      | Some u \<Rightarrow>
          if exec_latency w = 0
          then (if total_tokens u = 0 then Fin 0
                else if 0 < total_tokens u then PosInfinity else NegInfinity)
          else Fin (total_tokens u / (exec_latency w / 1000)))"
  by (simp add: assembleResponse_def Let_def js_div_def or_zero_def split: option.splits)

text \<open>
  Claim C6 at an input where it fails. The adapter call is measured at 0 ms and the
  backend reports 5 tokens in total: \<open>5 / (0 / 1000)\<close> is \<open>Infinity\<close>, which is truthy,
  so \<open>|| 0\<close> does not replace it and the response carries an infinite throughput.
\<close>

theorem throughput_at_zero_latency:
  "fst (processRequest cloud_manager calm_world openai_request) = Inr openai_reply
   \<and> latency (performance openai_reply) = 0
   \<and> totalTokens (usage openai_reply) = 5
   \<and> throughput (performance openai_reply) = PosInfinity"
  using openai_dispatch openai_reply_counters(3)
  by (simp add: openai_reply_def assembleResponse_def Let_def js_div_def or_zero_def
      reported_usage_def calm_world_def)

section \<open>Request options\<close>

lemma num_or_cases:
  "num_or None d = d" "num_or (Some 0) d = d" "v \<noteq> 0 \<Longrightarrow> num_or (Some v) d = v"
  by (simp_all add: num_or_def)

text \<open>
  Claim C7 at an input where it fails. The caller sets both options to \<open>0\<close>; \<open>0\<close> is
  falsy, so \<open>||\<close> replaces it in every adapter by the default, \<open>1000\<close> and \<open>0.7\<close>.
\<close>

theorem zero_options_replaced_by_defaults:
  "maxTokens (options zero_options_request) = Some 0
   \<and> temperature (options zero_options_request) = Some 0
   \<and> cp_max_tokens (openai_params zero_options_request (Some ''gpt-4'')) = 1000
   \<and> cp_temperature (openai_params zero_options_request (Some ''gpt-4'')) = 0.7
   \<and> ap_max_tokens (anthropic_request_params zero_options_request (Some ''gpt-4'')) = 1000
   \<and> ap_temperature (anthropic_request_params zero_options_request (Some ''gpt-4'')) = 0.7
   \<and> cp_max_tokens (groq_params zero_options_request (Some ''gpt-4'')) = 1000
   \<and> cp_temperature (groq_params zero_options_request (Some ''gpt-4'')) = 0.7
   \<and> op_num_predict (ollama_request_params zero_options_request (Some ''llama2'')) = 1000
   \<and> op_temperature (ollama_request_params zero_options_request (Some ''llama2'')) = 0.7
   \<and> cb_max_tokens (custom_request_body zero_options_request (Some ''m'')) = 1000
   \<and> cb_temperature (custom_request_body zero_options_request (Some ''m'')) = 0.7"
  by (simp add: zero_options_request_def plain_request_def openai_params_def
      anthropic_request_params_def groq_params_def ollama_request_params_def
      custom_request_body_def num_or_def)

section \<open>Statistics Tracker\<close>

lemma updateStats_first:
  assumes "map_get (stats st) (stats_key prov mdl) = None"
  shows "map_option ps_stats
           (map_get (stats (updateStats st prov (Some mdl) response lat date))
              (stats_key prov mdl))
    = Some \<lparr>totalRequests = 1, stats_totalTokens = totalTokens (usage response),
        totalCost = cost (usage response), averageLatency = lat, successRate = 1,
        lastUsed = date\<rparr>"
  using assms by (simp add: updateStats_def template_str_def map_get_map_set)

lemma updateStats_next:
  assumes "map_option ps_stats (map_get (stats st) (stats_key prov mdl)) = Some s"
  shows "map_option ps_stats
           (map_get (stats (updateStats st prov (Some mdl) response lat date))
              (stats_key prov mdl))
    = Some \<lparr>totalRequests = totalRequests s + 1,
        stats_totalTokens = stats_totalTokens s + totalTokens (usage response),
        totalCost = totalCost s + cost (usage response),
        averageLatency = (averageLatency s + lat) / 2,
        successRate = successRate s, lastUsed = date\<rparr>"
  using assms by (auto simp add: updateStats_def template_str_def map_get_map_set)

text \<open>
  Claim C3. For every key: the first recorded call sets the latency estimate to its
  latency and the success rate to \<open>1\<close>; every later call with latency \<open>L\<close> replaces
  the estimate \<open>E\<close> by \<open>(E + L) / 2\<close>, adds \<open>1\<close> to the call count and adds its tokens
  and cost to the totals. After three calls the estimate is
  \<open>((L1 + L2) / 2 + L3) / 2\<close>, which is the mean of the three only if \<open>L1 + L2 = 2 * L3\<close>.
\<close>

theorem updateStats_running_mean:
  "(map_get (stats st) (stats_key prov mdl) = None \<longrightarrow>
      map_option ps_stats
        (map_get (stats (updateStats st prov (Some mdl) r1 l1 d1)) (stats_key prov mdl))
      = Some \<lparr>totalRequests = 1, stats_totalTokens = totalTokens (usage r1),
          totalCost = cost (usage r1), averageLatency = l1, successRate = 1, lastUsed = d1\<rparr>)
   \<and> (\<forall>s. map_option ps_stats (map_get (stats st) (stats_key prov mdl)) = Some s \<longrightarrow>
      map_option ps_stats
        (map_get (stats (updateStats st prov (Some mdl) r1 l1 d1)) (stats_key prov mdl))
      = Some \<lparr>totalRequests = totalRequests s + 1,
          stats_totalTokens = stats_totalTokens s + totalTokens (usage r1),
          totalCost = totalCost s + cost (usage r1),
          averageLatency = (averageLatency s + l1) / 2,
          successRate = successRate s, lastUsed = d1\<rparr>)
   \<and> (map_get (stats st) (stats_key prov mdl) = None \<longrightarrow>
      map_option ps_stats
        (map_get (stats (updateStats (updateStats (updateStats st prov (Some mdl) r1 l1 d1)
            prov (Some mdl) r2 l2 d2) prov (Some mdl) r3 l3 d3)) (stats_key prov mdl))
      = Some \<lparr>totalRequests = 3,
          stats_totalTokens =
            totalTokens (usage r1) + totalTokens (usage r2) + totalTokens (usage r3),
          totalCost = cost (usage r1) + cost (usage r2) + cost (usage r3),
          averageLatency = ((l1 + l2) / 2 + l3) / 2,
          successRate = 1, lastUsed = d3\<rparr>
      \<and> (((l1 + l2) / 2 + l3) / 2 = (l1 + l2 + l3) / 3 \<longleftrightarrow> l1 + l2 = 2 * l3))"
proof (intro conjI impI allI)
  assume n: "map_get (stats st) (stats_key prov mdl) = None"
  show "map_option ps_stats
        (map_get (stats (updateStats st prov (Some mdl) r1 l1 d1)) (stats_key prov mdl))
      = Some \<lparr>totalRequests = 1, stats_totalTokens = totalTokens (usage r1),
          totalCost = cost (usage r1), averageLatency = l1, successRate = 1, lastUsed = d1\<rparr>"
    by (rule updateStats_first [OF n])
  show "map_option ps_stats
        (map_get (stats (updateStats (updateStats (updateStats st prov (Some mdl) r1 l1 d1)
            prov (Some mdl) r2 l2 d2) prov (Some mdl) r3 l3 d3)) (stats_key prov mdl))
      = Some \<lparr>totalRequests = 3,
          stats_totalTokens =
            totalTokens (usage r1) + totalTokens (usage r2) + totalTokens (usage r3),
          totalCost = cost (usage r1) + cost (usage r2) + cost (usage r3),
          averageLatency = ((l1 + l2) / 2 + l3) / 2,
          successRate = 1, lastUsed = d3\<rparr>"
    using updateStats_next [OF updateStats_next [OF updateStats_first [OF n]]]
    by simp
  show "(((l1 + l2) / 2 + l3) / 2 = (l1 + l2 + l3) / 3) = (l1 + l2 = 2 * l3)"
    by (auto simp add: field_simps)
next
  fix s assume "map_option ps_stats (map_get (stats st) (stats_key prov mdl)) = Some s"
  then show "map_option ps_stats
        (map_get (stats (updateStats st prov (Some mdl) r1 l1 d1)) (stats_key prov mdl))
      = Some \<lparr>totalRequests = totalRequests s + 1,
          stats_totalTokens = stats_totalTokens s + totalTokens (usage r1),
          totalCost = totalCost s + cost (usage r1),
          averageLatency = (averageLatency s + l1) / 2,
          successRate = successRate s, lastUsed = d1\<rparr>"
    by (rule updateStats_next)
qed

theorem updateStats_running_mean_witness:
  "map_option ps_stats
     (map_get (stats (updateStats cloud_manager ''openai'' (Some ''gpt-4'') openai_reply 100 1))
        (stats_key ''openai'' ''gpt-4''))
     = Some \<lparr>totalRequests = 1, stats_totalTokens = 5, totalCost = 15 / 100000,
         averageLatency = 100, successRate = 1, lastUsed = 1\<rparr>
   \<and> map_option ps_stats
     (map_get (stats (updateStats
          (updateStats cloud_manager ''openai'' (Some ''gpt-4'') openai_reply 100 1)
          ''openai'' (Some ''gpt-4'') openai_reply 200 2))
        (stats_key ''openai'' ''gpt-4''))
     = Some \<lparr>totalRequests = 2, stats_totalTokens = 10, totalCost = 30 / 100000,
         averageLatency = 150, successRate = 1, lastUsed = 2\<rparr>
   \<and> map_option ps_stats
     (map_get (stats (updateStats (updateStats
          (updateStats cloud_manager ''openai'' (Some ''gpt-4'') openai_reply 100 1)
          ''openai'' (Some ''gpt-4'') openai_reply 200 2)
          ''openai'' (Some ''gpt-4'') openai_reply 600 3))
        (stats_key ''openai'' ''gpt-4''))
     = Some \<lparr>totalRequests = 3, stats_totalTokens = 15, totalCost = 45 / 100000,
         averageLatency = 375, successRate = 1, lastUsed = 3\<rparr>"
proof -
  have n: "map_get (stats cloud_manager) (stats_key ''openai'' ''gpt-4'') = None"
    by (simp add: cloud_manager_stats map_get_def)
  note t = updateStats_running_mean [of cloud_manager "''openai''" "''gpt-4''"
      openai_reply 100 1 openai_reply 200 2 openai_reply 600 3]
  from t n have one: "map_option ps_stats
     (map_get (stats (updateStats cloud_manager ''openai'' (Some ''gpt-4'') openai_reply 100 1))
        (stats_key ''openai'' ''gpt-4''))
     = Some \<lparr>totalRequests = 1, stats_totalTokens = 5, totalCost = 15 / 100000,
         averageLatency = 100, successRate = 1, lastUsed = 1\<rparr>"
    unfolding openai_reply_counters openai_reply_cost by blast
  from t n have three: "map_option ps_stats
     (map_get (stats (updateStats (updateStats
          (updateStats cloud_manager ''openai'' (Some ''gpt-4'') openai_reply 100 1)
          ''openai'' (Some ''gpt-4'') openai_reply 200 2)
          ''openai'' (Some ''gpt-4'') openai_reply 600 3))
        (stats_key ''openai'' ''gpt-4''))
     = Some \<lparr>totalRequests = 3, stats_totalTokens = 15, totalCost = 45 / 100000,
         averageLatency = 375, successRate = 1, lastUsed = 3\<rparr>"
    unfolding openai_reply_counters openai_reply_cost by simp
  from updateStats_running_mean [of
      "updateStats cloud_manager ''openai'' (Some ''gpt-4'') openai_reply 100 1"
      "''openai''" "''gpt-4''" openai_reply 200 2 openai_reply 200 2 openai_reply 600 3] one
  have two: "map_option ps_stats
     (map_get (stats (updateStats
          (updateStats cloud_manager ''openai'' (Some ''gpt-4'') openai_reply 100 1)
          ''openai'' (Some ''gpt-4'') openai_reply 200 2))
        (stats_key ''openai'' ''gpt-4''))
     = Some \<lparr>totalRequests = 2, stats_totalTokens = 10, totalCost = 30 / 100000,
         averageLatency = 150, successRate = 1, lastUsed = 2\<rparr>"
    unfolding openai_reply_counters openai_reply_cost by simp
  from one two three show ?thesis by blast
qed

section \<open>Registry and Router\<close>

lemma map_has_iff: "map_has kvs k \<longleftrightarrow> map_get kvs k \<noteq> None"
  by (simp add: map_has_def map_get_def map_of_eq_None_iff)

lemma map_get_register_endpoint:
  "map_get (register_endpoint ps e) k =
     (case split_str e CHR '':'' of
        nm # url # _ \<Rightarrow>
          (if nm \<noteq> [] \<and> url \<noteq> [] \<and> k = ''custom_'' @ nm
           then Some (CustomEndpoint (if includes_str url ''://'' then url else ''http://'' @ url))
           else map_get ps k)
      | _ \<Rightarrow> map_get ps k)"
  by (simp add: register_endpoint_def map_get_map_set split: list.splits)

lemma register_endpoint_keeps_custom:
  assumes "\<exists>u. map_get ps k = Some (CustomEndpoint u)"
  shows "\<exists>u. map_get (register_endpoint ps e) k = Some (CustomEndpoint u)"
  using assms by (auto simp: map_get_register_endpoint split: list.splits)

lemma register_endpoint_adds_custom:
  assumes "split_str e CHR '':'' = nm # url # rest" "nm \<noteq> []" "url \<noteq> []"
  shows "\<exists>u. map_get (register_endpoint ps e) (''custom_'' @ nm) = Some (CustomEndpoint u)"
  using assms by (simp add: map_get_register_endpoint)

lemma foldl_register_keeps_custom:
  "\<exists>u. map_get ps k = Some (CustomEndpoint u) \<Longrightarrow>
   \<exists>u. map_get (foldl register_endpoint ps es) k = Some (CustomEndpoint u)"
proof (induction es arbitrary: ps)
  case Nil
  then show ?case by simp
next
  case (Cons e es)
  from Cons.IH [OF register_endpoint_keeps_custom [OF Cons.prems]]
  show ?case by simp
qed

lemma foldl_register_adds_custom:
  assumes "e \<in> set es" "split_str e CHR '':'' = nm # url # rest" "nm \<noteq> []" "url \<noteq> []"
  shows "\<exists>u. map_get (foldl register_endpoint ps es) (''custom_'' @ nm) = Some (CustomEndpoint u)"
  using assms(1)
proof (induction es arbitrary: ps)
  case Nil
  then show ?case by simp
next
  case (Cons x es)
  show ?case
  proof (cases "x = e")
    case True
    from foldl_register_keeps_custom [OF register_endpoint_adds_custom [OF assms(2-4)]]
    show ?thesis unfolding True by simp
  next
    case False
    with Cons.prems have "e \<in> set es" by simp
    from Cons.IH [OF this] show ?thesis by simp
  qed
qed

lemma initializeProviders_custom:
  assumes "CUSTOM_LLM_ENDPOINTS e = Some s" "entry \<in> set (split_str s CHR '','')"
    "split_str entry CHR '':'' = nm # url # rest" "nm \<noteq> []" "url \<noteq> []"
  shows "\<exists>u. map_get (initializeProviders e) (''custom_'' @ nm) = Some (CustomEndpoint u)"
proof -
  have "s \<noteq> []" using assms(2,3) by auto
  with assms(1) have "initializeProviders e =
    foldl register_endpoint
      (let ps0 = [];
          ps1 = (if truthy_str (OPENAI_API_KEY e) then map_set ''openai'' SdkClient ps0 else ps0);
          ps2 = (if truthy_str (ANTHROPIC_API_KEY e) then map_set ''anthropic'' SdkClient ps1 else ps1);
          ps3 = (if truthy_str (GROQ_API_KEY e) then map_set ''groq'' SdkClient ps2 else ps2);
          ps4 = (if truthy_str (OLLAMA_BASE_URL e) then map_set ''ollama'' SdkClient ps3 else ps3)
       in ps4) (split_str s CHR '','')"
    by (simp add: initializeProviders_def initializeCustomEndpoints_def Let_def)
  with foldl_register_adds_custom [OF assms(2-5)] show ?thesis by simp
qed

lemma initial_config_keys:
  assumes "map_get initializeProviderConfigs p = Some cfg"
  shows "(p = ''openai'' \<and> cfg = openai_config) \<or> (p = ''anthropic'' \<and> cfg = anthropic_config)
       \<or> (p = ''groq'' \<and> cfg = groq_config) \<or> (p = ''ollama'' \<and> cfg = ollama_config)"
  using assms by (auto simp: initializeProviderConfigs_def map_get_def split: if_splits)

lemma provider_scores_entry:
  assumes "x \<in> set (provider_scores st request p)"
  shows "e_provider x = p \<and> (\<exists>cfg. map_get (providerConfigs st) p = Some cfg
           \<and> e_model x \<in> set (models cfg)
           \<and> e_score x = total (calculateProviderScore st request p (e_model x) cfg))"
  using assms by (cases "map_get (providerConfigs st) p") (auto simp: provider_scores_def Let_def)

lemma all_scores_entry:
  assumes "x \<in> set (all_scores st request)"
  shows "e_provider x \<in> set (map_keys (providers st))
       \<and> (\<exists>cfg. map_get (providerConfigs st) (e_provider x) = Some cfg
           \<and> e_model x \<in> set (models cfg)
           \<and> e_score x = total (calculateProviderScore st request (e_provider x) (e_model x) cfg))"
proof -
  from assms obtain p where p: "p \<in> set (map_keys (providers st))"
    "x \<in> set (provider_scores st request p)"
    by (auto simp: all_scores_def)
  from provider_scores_entry [OF p(2)] p(1) show ?thesis by auto
qed

lemma provider_scores_empty:
  "provider_scores st request p = [] \<longleftrightarrow>
     (\<forall>cfg. map_get (providerConfigs st) p = Some cfg \<longrightarrow> models cfg = [])"
  by (simp add: provider_scores_def split: option.splits)

lemma all_scores_empty:
  "all_scores st request = [] \<longleftrightarrow>
     \<not> (\<exists>p \<in> set (map_keys (providers st)). \<exists>cfg.
          map_get (providerConfigs st) p = Some cfg \<and> models cfg \<noteq> [])"
  by (auto simp: all_scores_def provider_scores_empty)

lemma sort_key_Nil_iff: "sort_key f xs = [] \<longleftrightarrow> xs = []"
  by (metis length_sort length_0_conv)

lemma smartRouting_decides:
  "(\<exists>d. smartRouting st request = Inr d) \<longleftrightarrow> all_scores st request \<noteq> []"
  by (auto simp: smartRouting_def sort_key_Nil_iff split: list.splits)

lemma smartRouting_fails:
  "all_scores st request = [] \<Longrightarrow>
   smartRouting st request = Inl (TypeError ''Cannot read properties of undefined (reading 'provider')'')"
  by (simp add: smartRouting_def)

lemma smartRouting_Inr:
  assumes "smartRouting st request = Inr d"
  shows "\<exists>best rest. sort_key (\<lambda>e. - e_score e) (all_scores st request) = best # rest
           \<and> selectedProvider d = e_provider best \<and> selectedModel d = e_model best
           \<and> confidence d = e_score best \<and> alternatives d = take 3 rest"
  using assms by (auto simp: smartRouting_def split: list.splits)

lemma smartRouting_chosen:
  assumes "smartRouting st request = Inr d"
  shows "\<exists>best \<in> set (all_scores st request).
           selectedProvider d = e_provider best \<and> selectedModel d = e_model best
           \<and> (\<forall>x \<in> set (all_scores st request). e_score x \<le> e_score best)"
    and "set (alternatives d) \<subseteq> set (all_scores st request)"
proof -
  from smartRouting_Inr [OF assms] obtain best rest
    where s: "sort_key (\<lambda>e. - e_score e) (all_scores st request) = best # rest"
      and d: "selectedProvider d = e_provider best" "selectedModel d = e_model best"
        "alternatives d = take 3 rest"
    by blast
  have m: "set (best # rest) = set (all_scores st request)"
    unfolding s [symmetric] by simp
  have "sorted (map (\<lambda>e. - e_score e) (best # rest))"
    unfolding s [symmetric] by (rule sorted_sort_key)
  then have "\<forall>x \<in> set (best # rest). e_score x \<le> e_score best"
    by auto
  with m d show "\<exists>best \<in> set (all_scores st request).
           selectedProvider d = e_provider best \<and> selectedModel d = e_model best
           \<and> (\<forall>x \<in> set (all_scores st request). e_score x \<le> e_score best)"
    by (metis list.set_intros(1))
  have "set (take 3 rest) \<subseteq> set (best # rest)"
    using set_take_subset [of 3 rest] by auto
  with m d(3) show "set (alternatives d) \<subseteq> set (all_scores st request)" by simp
qed

lemma map_keys_available: "p \<in> set (map_keys (providers st)) \<longleftrightarrow> isProviderAvailable st p"
  by (simp add: map_keys_def isProviderAvailable_def map_has_def)

lemma initial_models_nonempty:
  "map_get initializeProviderConfigs p = Some cfg \<Longrightarrow> models cfg \<noteq> []"
  by (auto dest!: initial_config_keys
      simp: openai_config_def anthropic_config_def groq_config_def ollama_config_def)

lemma initial_config_iff:
  "(\<exists>cfg. map_get initializeProviderConfigs p = Some cfg) \<longleftrightarrow>
     p = ''openai'' \<or> p = ''anthropic'' \<or> p = ''groq'' \<or> p = ''ollama''"
  using initial_config_keys [of p] initial_configs by auto

text \<open>
  Claim C1, as the code has it. The router returns a decision if and only if some
  available backend has a config profile with a model; with the profiles the
  constructor installs, if and only if one of the four built-in backends is available.
  Whether it does is the same for every request.
\<close>

theorem routing_decision_iff:
  "((\<exists>d. smartRouting st request = Inr d) \<longleftrightarrow>
      (\<exists>p \<in> set (map_keys (providers st)). \<exists>cfg.
          map_get (providerConfigs st) p = Some cfg \<and> models cfg \<noteq> []))
   \<and> (providerConfigs st = initializeProviderConfigs \<longrightarrow>
        ((\<exists>d. smartRouting st request = Inr d) \<longleftrightarrow>
           isProviderAvailable st ''openai'' \<or> isProviderAvailable st ''anthropic''
           \<or> isProviderAvailable st ''groq'' \<or> isProviderAvailable st ''ollama''))
   \<and> ((\<exists>d. smartRouting st request = Inr d) \<longleftrightarrow> (\<exists>d. smartRouting st request' = Inr d))"
proof (intro conjI impI)
  show a: "\<And>rq. (\<exists>d. smartRouting st rq = Inr d) \<longleftrightarrow>
      (\<exists>p \<in> set (map_keys (providers st)). \<exists>cfg.
          map_get (providerConfigs st) p = Some cfg \<and> models cfg \<noteq> [])"
    unfolding smartRouting_decides all_scores_empty by simp
  show "(\<exists>d. smartRouting st request = Inr d) \<longleftrightarrow> (\<exists>d. smartRouting st request' = Inr d)"
    unfolding a ..
  assume c: "providerConfigs st = initializeProviderConfigs"
  have "(\<exists>p \<in> set (map_keys (providers st)). \<exists>cfg.
          map_get (providerConfigs st) p = Some cfg \<and> models cfg \<noteq> [])
        \<longleftrightarrow> (\<exists>p. isProviderAvailable st p \<and> (\<exists>cfg. map_get initializeProviderConfigs p = Some cfg))"
    unfolding c Bex_def map_keys_available using initial_models_nonempty by blast
  also have "\<dots> \<longleftrightarrow> isProviderAvailable st ''openai'' \<or> isProviderAvailable st ''anthropic''
           \<or> isProviderAvailable st ''groq'' \<or> isProviderAvailable st ''ollama''"
    unfolding initial_config_iff by auto
  finally show "(\<exists>d. smartRouting st request = Inr d) \<longleftrightarrow>
           isProviderAvailable st ''openai'' \<or> isProviderAvailable st ''anthropic''
           \<or> isProviderAvailable st ''groq'' \<or> isProviderAvailable st ''ollama''"
    unfolding a .
qed

lemma cloud_manager_openai: "isProviderAvailable cloud_manager ''openai''"
  by (simp add: isProviderAvailable_def map_has_def cloud_manager_providers)

theorem routing_decision_iff_witness:
  "isProviderAvailable cloud_manager ''openai''
   \<and> (\<exists>d. smartRouting cloud_manager plain_request = Inr d)"
  using routing_decision_iff [of cloud_manager plain_request plain_request]
    cloud_manager_configs cloud_manager_openai
  by blast

lemma custom_manager_providers:
  "providers custom_manager = [(''custom_local'', CustomEndpoint ''http://localhost'')]"
  by (simp add: custom_manager_def custom_env_def new_LLMProviderManager_def
      initializeProviders_def initializeCustomEndpoints_def truthy_str_def no_env_def
      register_endpoint_def)

lemma custom_manager_configs: "providerConfigs custom_manager = initializeProviderConfigs"
  by (simp add: custom_manager_def new_LLMProviderManager_def)

lemma custom_manager_scores: "all_scores custom_manager request = []"
  by (simp add: all_scores_def map_keys_def custom_manager_providers provider_scores_def
      custom_manager_configs initializeProviderConfigs_def map_get_def)

text \<open>
  The claim as stated fails: with only a custom endpoint configured a backend is
  available, and the router still has nothing to score.
\<close>

theorem routing_failure_counterexample:
  "isProviderAvailable custom_manager ''custom_local''
   \<and> smartRouting custom_manager plain_request =
       Inl (TypeError ''Cannot read properties of undefined (reading 'provider')'')"
  using smartRouting_fails [OF custom_manager_scores]
  by (simp add: isProviderAvailable_def map_has_def custom_manager_providers)

lemma explicit_dispatch:
  assumes "provider request = Some p" "p \<noteq> []" "p \<noteq> ''auto''"
  shows "fst (processRequest st w request) = executeRequest st w request p (model request)"
  using assms by (simp add: processRequest_def Let_def split: sum.splits)

lemma custom_execute:
  assumes "map_get (providers st) (''custom_'' @ nm) = Some inst"
  shows "executeRequest st w request (''custom_'' @ nm) mdl =
     map_sum id (assembleResponse st w request (''custom_'' @ nm) mdl)
       (processCustomRequest w inst request mdl)"
  using assms
  by (simp add: executeRequest_def callAdapter_def startsWith_def split: sum.splits)

lemma routed_has_config:
  assumes "smartRouting st request = Inr d"
  shows "\<exists>cfg. map_get (providerConfigs st) (selectedProvider d) = Some cfg"
    and "\<forall>a \<in> set (alternatives d). \<exists>cfg. map_get (providerConfigs st) (e_provider a) = Some cfg"
  using smartRouting_chosen [OF assms] all_scores_entry [of _ st request]
  by (metis, blast)

lemma initial_config_not_custom:
  "map_get initializeProviderConfigs p = Some cfg \<Longrightarrow> \<not> startsWith p ''custom_''"
  by (auto dest!: initial_config_keys simp: startsWith_def)

text \<open>
  Claim C10. An entry \<open>name:url\<close> of the custom-endpoints list with a non-empty name
  and a non-empty url registers the backend \<open>custom_name\<close>: it is available, a request
  that names it is answered by the custom adapter; it has no profile, so it contributes
  no score, and no routing decision, for any request, names a custom backend as its
  choice or among its alternatives.
\<close>

theorem custom_backends_not_routed:
  assumes "CUSTOM_LLM_ENDPOINTS e = Some s" and "entry \<in> set (split_str s CHR '','')"
    and "split_str entry CHR '':'' = nm # url # rest" and "nm \<noteq> []" and "url \<noteq> []"
    and "providers st = initializeProviders e"
    and "providerConfigs st = initializeProviderConfigs"
  shows "isProviderAvailable st (''custom_'' @ nm)
    \<and> map_get (providerConfigs st) (''custom_'' @ nm) = None
    \<and> provider_scores st request' (''custom_'' @ nm) = []
    \<and> (provider request = Some (''custom_'' @ nm) \<longrightarrow>
        (\<exists>u. fst (processRequest st w request) =
           map_sum id (assembleResponse st w request (''custom_'' @ nm) (model request))
             (processCustomRequest w (CustomEndpoint u) request (model request))))
    \<and> (\<forall>d. smartRouting st request' = Inr d \<longrightarrow>
        \<not> startsWith (selectedProvider d) ''custom_''
        \<and> (\<forall>a \<in> set (alternatives d). \<not> startsWith (e_provider a) ''custom_''))"
proof (intro conjI impI allI)
  from initializeProviders_custom [OF assms(1-5)] obtain u
    where u: "map_get (providers st) (''custom_'' @ nm) = Some (CustomEndpoint u)"
    unfolding assms(6) by blast
  then show "isProviderAvailable st (''custom_'' @ nm)"
    by (simp add: isProviderAvailable_def map_has_iff)
  show n: "map_get (providerConfigs st) (''custom_'' @ nm) = None"
    unfolding assms(7) using initial_config_not_custom [of "''custom_'' @ nm"]
    by (cases "map_get initializeProviderConfigs (''custom_'' @ nm)")
      (simp_all add: startsWith_def)
  show "provider_scores st request' (''custom_'' @ nm) = []"
    unfolding provider_scores_def n by simp
  assume "provider request = Some (''custom_'' @ nm)"
  then have "fst (processRequest st w request)
      = executeRequest st w request (''custom_'' @ nm) (model request)"
    by (rule explicit_dispatch) simp_all
  with custom_execute [OF u]
  show "\<exists>u. fst (processRequest st w request) =
           map_sum id (assembleResponse st w request (''custom_'' @ nm) (model request))
             (processCustomRequest w (CustomEndpoint u) request (model request))"
    by auto
next
  fix d assume d: "smartRouting st request' = Inr d"
  from routed_has_config(1) [OF d] initial_config_not_custom
  show "\<not> startsWith (selectedProvider d) ''custom_''"
    unfolding assms(7) by blast
  from routed_has_config(2) [OF d] initial_config_not_custom
  show "\<forall>a \<in> set (alternatives d). \<not> startsWith (e_provider a) ''custom_''"
    unfolding assms(7) by blast
qed

section \<open>Scoring\<close>

lemma total_calculateProviderScore:
  "total (calculateProviderScore st request p m cfg) =
     costScore cfg * 0.3 + performanceScore st p m * 0.4
     + capabilityScore request cfg * 0.2 + availabilityScore st p * 0.1"
  by (simp add: calculateProviderScore_def Let_def)

lemma costScore_mono:
  "inputTokens (pricing c1) + outputTokens (pricing c1)
     \<le> inputTokens (pricing c2) + outputTokens (pricing c2) \<Longrightarrow> costScore c2 \<le> costScore c1"
  by (simp add: costScore_def)

lemma performanceScore_no_stats: "stats st = [] \<Longrightarrow> performanceScore st p m = 0.5"
  by (simp add: performanceScore_def map_get_def)

lemma availabilityScore_available:
  "isProviderAvailable st p \<Longrightarrow> availabilityScore st p = 1"
  by (simp add: availabilityScore_def isProviderAvailable_def)

lemma initial_capabilityScore:
  "map_get initializeProviderConfigs p = Some cfg \<Longrightarrow>
   capabilityScore request cfg = capabilityScore request ollama_config"
  by (auto dest!: initial_config_keys
      simp: capabilityScore_def openai_config_def anthropic_config_def groq_config_def
        ollama_config_def)

lemma initial_costScore:
  "map_get initializeProviderConfigs p = Some cfg \<Longrightarrow> p \<noteq> ''ollama'' \<Longrightarrow> costScore cfg < 1"
  by (auto dest!: initial_config_keys
      simp: costScore_def openai_config_def anthropic_config_def groq_config_def)

lemma ollama_costScore: "costScore ollama_config = 1"
  by (simp add: costScore_def ollama_config_def)

lemma fresh_entry_score:
  assumes "stats st = []" "providerConfigs st = initializeProviderConfigs"
    "x \<in> set (all_scores st request)"
  shows "(e_provider x = ''ollama'' \<longrightarrow>
            e_score x = 0.6 + capabilityScore request ollama_config * 0.2)
       \<and> (e_provider x \<noteq> ''ollama'' \<longrightarrow>
            e_score x < 0.6 + capabilityScore request ollama_config * 0.2)"
proof -
  from all_scores_entry [OF assms(3)] obtain cfg
    where k: "e_provider x \<in> set (map_keys (providers st))"
      and c: "map_get initializeProviderConfigs (e_provider x) = Some cfg"
      and s: "e_score x = total (calculateProviderScore st request (e_provider x) (e_model x) cfg)"
    unfolding assms(2) by blast
  from k have av: "availabilityScore st (e_provider x) = 1"
    by (simp add: availabilityScore_available map_keys_available)
  have e: "e_score x = costScore cfg * 0.3 + 0.3 + capabilityScore request ollama_config * 0.2"
    unfolding s total_calculateProviderScore av performanceScore_no_stats [OF assms(1)]
      initial_capabilityScore [OF c] by simp
  show ?thesis
  proof (cases "e_provider x = ''ollama''")
    case True
    with c initial_configs(4) have "cfg = ollama_config" by simp
    with e True show ?thesis by (simp add: ollama_costScore)
  next
    case False
    from initial_costScore [OF c False] e False show ?thesis by simp
  qed
qed

lemma ollama_entry:
  assumes "providerConfigs st = initializeProviderConfigs" "isProviderAvailable st ''ollama''"
  shows "\<exists>x \<in> set (all_scores st request). e_provider x = ''ollama''"
proof -
  have "provider_scores st request ''ollama'' \<noteq> []"
    unfolding provider_scores_empty assms(1)
    by (simp add: initial_configs ollama_config_def)
  then obtain x where x: "x \<in> set (provider_scores st request ''ollama'')"
    by (cases "provider_scores st request ''ollama''") auto
  from provider_scores_entry [OF x] have "e_provider x = ''ollama''" by simp
  moreover from x assms(2) have "x \<in> set (all_scores st request)"
    by (auto simp: all_scores_def map_keys_available)
  ultimately show ?thesis by blast
qed

lemma fresh_routing_picks_ollama:
  assumes "stats st = []" "providerConfigs st = initializeProviderConfigs"
    "isProviderAvailable st ''ollama''"
  shows "\<exists>d. smartRouting st request = Inr d \<and> selectedProvider d = ''ollama''"
proof -
  from ollama_entry [OF assms(2,3)] obtain x0
    where x0: "x0 \<in> set (all_scores st request)" "e_provider x0 = ''ollama''" by blast
  then have "all_scores st request \<noteq> []" by auto
  then obtain d where d: "smartRouting st request = Inr d"
    unfolding smartRouting_decides [symmetric] by blast
  from smartRouting_chosen(1) [OF d] obtain best
    where b: "best \<in> set (all_scores st request)" "selectedProvider d = e_provider best"
      "\<forall>x \<in> set (all_scores st request). e_score x \<le> e_score best"
    by blast
  from b(3) x0(1) have "e_score x0 \<le> e_score best" by blast
  with fresh_entry_score [OF assms(1,2) x0(1)] fresh_entry_score [OF assms(1,2) b(1)] x0(2)
  have "e_provider best = ''ollama''" by (cases "e_provider best = ''ollama''") auto
  with d b(2) show ?thesis by simp
qed

text \<open>
  Claim C5, as the code has it. For a fixed request, of two backend and model pairs with
  equal performance, capability and availability factors the one with the lower combined
  price scores at least as high. Without recorded statistics Ollama, priced 0/0, scores
  strictly higher than OpenAI, priced 0.03/0.06, and auto-routing selects Ollama
  whenever it is available.
\<close>

theorem price_monotone_scoring:
  "(performanceScore st p1 m1 = performanceScore st p2 m2 \<longrightarrow>
    capabilityScore request c1 = capabilityScore request c2 \<longrightarrow>
    availabilityScore st p1 = availabilityScore st p2 \<longrightarrow>
    inputTokens (pricing c1) + outputTokens (pricing c1)
      \<le> inputTokens (pricing c2) + outputTokens (pricing c2) \<longrightarrow>
    total (calculateProviderScore st request p2 m2 c2)
      \<le> total (calculateProviderScore st request p1 m1 c1))
   \<and> (stats st = [] \<longrightarrow> isProviderAvailable st ''ollama'' \<longrightarrow> isProviderAvailable st ''openai'' \<longrightarrow>
      total (calculateProviderScore st request ''openai'' m2 openai_config)
        < total (calculateProviderScore st request ''ollama'' m1 ollama_config))
   \<and> (stats st = [] \<longrightarrow> providerConfigs st = initializeProviderConfigs \<longrightarrow>
      isProviderAvailable st ''ollama'' \<longrightarrow>
      (\<exists>d. smartRouting st request = Inr d \<and> selectedProvider d = ''ollama''))"
proof (intro conjI impI)
  assume "performanceScore st p1 m1 = performanceScore st p2 m2"
    and "capabilityScore request c1 = capabilityScore request c2"
    and "availabilityScore st p1 = availabilityScore st p2"
    and "inputTokens (pricing c1) + outputTokens (pricing c1)
      \<le> inputTokens (pricing c2) + outputTokens (pricing c2)"
  then show "total (calculateProviderScore st request p2 m2 c2)
      \<le> total (calculateProviderScore st request p1 m1 c1)"
    unfolding total_calculateProviderScore using costScore_mono [of c1 c2] by simp
next
  assume "stats st = []" "isProviderAvailable st ''ollama''" "isProviderAvailable st ''openai''"
  then show "total (calculateProviderScore st request ''openai'' m2 openai_config)
        < total (calculateProviderScore st request ''ollama'' m1 ollama_config)"
    unfolding total_calculateProviderScore
    using initial_capabilityScore [OF initial_configs(1), of request]
      initial_costScore [OF initial_configs(1)]
    by (simp add: performanceScore_no_stats availabilityScore_available ollama_costScore)
next
  assume "stats st = []" "providerConfigs st = initializeProviderConfigs"
    "isProviderAvailable st ''ollama''"
  then show "\<exists>d. smartRouting st request = Inr d \<and> selectedProvider d = ''ollama''"
    by (rule fresh_routing_picks_ollama)
qed

lemma local_manager_providers:
  "providers local_manager = [(''openai'', SdkClient), (''ollama'', SdkClient)]"
  by (simp add: local_manager_def new_LLMProviderManager_def initializeProviders_def
      initializeCustomEndpoints_def truthy_str_def no_env_def)

lemma local_manager_stats: "stats local_manager = []"
  by (simp add: local_manager_def new_LLMProviderManager_def)

lemma local_manager_configs: "providerConfigs local_manager = initializeProviderConfigs"
  by (simp add: local_manager_def new_LLMProviderManager_def)

lemma local_manager_available:
  "isProviderAvailable local_manager ''ollama''" "isProviderAvailable local_manager ''openai''"
  by (simp_all add: isProviderAvailable_def map_has_def local_manager_providers)

theorem price_monotone_scoring_witness:
  "total (calculateProviderScore local_manager plain_request ''openai'' ''gpt-4'' openai_config)
     \<le> total (calculateProviderScore local_manager plain_request ''ollama'' ''llama2'' ollama_config)
   \<and> total (calculateProviderScore local_manager plain_request ''openai'' ''gpt-4'' openai_config)
     < total (calculateProviderScore local_manager plain_request ''ollama'' ''llama2'' ollama_config)
   \<and> (\<exists>d. smartRouting local_manager plain_request = Inr d \<and> selectedProvider d = ''ollama'')"
proof -
  have p: "performanceScore local_manager ''ollama'' ''llama2''
             = performanceScore local_manager ''openai'' ''gpt-4''"
    by (simp add: performanceScore_no_stats local_manager_stats)
  have c: "capabilityScore plain_request ollama_config = capabilityScore plain_request openai_config"
    using initial_capabilityScore [OF initial_configs(1), of plain_request] by simp
  have a: "availabilityScore local_manager ''ollama'' = availabilityScore local_manager ''openai''"
    by (simp add: availabilityScore_available local_manager_available)
  have pr: "inputTokens (pricing ollama_config) + outputTokens (pricing ollama_config)
      \<le> inputTokens (pricing openai_config) + outputTokens (pricing openai_config)"
    by (simp add: ollama_config_def openai_config_def)
  from price_monotone_scoring [of local_manager "''ollama''" "''llama2''" "''openai''" "''gpt-4''"
      plain_request ollama_config openai_config]
    p c a pr local_manager_stats local_manager_configs local_manager_available
  show ?thesis by blast
qed

text \<open>
  The claim as stated, with only the capability and availability factors equal, fails:
  after one slow call Ollama's performance factor is 0.01 against the neutral 0.5 of
  OpenAI, and the cheaper backend scores lower.
\<close>

lemma slow_local_manager_stats:
  "map_get (stats slow_local_manager) (stats_key ''ollama'' ''llama2'')
     = Some \<lparr>ps_provider = ''ollama'', ps_model = Some ''llama2'',
         ps_stats = \<lparr>totalRequests = 1, stats_totalTokens = 5, totalCost = 15 / 100000,
           averageLatency = 100000, successRate = 1, lastUsed = 0\<rparr>, ps_period = Day\<rparr>"
  "map_get (stats slow_local_manager) (stats_key ''openai'' ''gpt-4'') = None"
  "providers slow_local_manager = providers local_manager"
  by (simp_all add: slow_local_manager_def updateStats_def local_manager_stats map_get_def
      template_str_def stats_key_def openai_reply_counters openai_reply_cost)

theorem price_monotone_counterexample:
  "isProviderAvailable slow_local_manager ''ollama''
   \<and> isProviderAvailable slow_local_manager ''openai''
   \<and> capabilityScore plain_request ollama_config = capabilityScore plain_request openai_config
   \<and> availabilityScore slow_local_manager ''ollama'' = availabilityScore slow_local_manager ''openai''
   \<and> inputTokens (pricing ollama_config) + outputTokens (pricing ollama_config)
       < inputTokens (pricing openai_config) + outputTokens (pricing openai_config)
   \<and> total (calculateProviderScore slow_local_manager plain_request ''ollama'' ''llama2'' ollama_config)
       < total (calculateProviderScore slow_local_manager plain_request ''openai'' ''gpt-4'' openai_config)"
proof -
  have av: "isProviderAvailable slow_local_manager ''ollama''"
    "isProviderAvailable slow_local_manager ''openai''"
    using local_manager_available
    by (simp_all add: isProviderAvailable_def slow_local_manager_stats(3))
  have c: "capabilityScore plain_request ollama_config = capabilityScore plain_request openai_config"
    using initial_capabilityScore [OF initial_configs(1), of plain_request] by simp
  have pr: "inputTokens (pricing ollama_config) + outputTokens (pricing ollama_config)
      < inputTokens (pricing openai_config) + outputTokens (pricing openai_config)"
    by (simp add: ollama_config_def openai_config_def)
  have p1: "performanceScore slow_local_manager ''ollama'' ''llama2'' = 1 / 100"
    by (simp add: performanceScore_def slow_local_manager_stats)
  have p2: "performanceScore slow_local_manager ''openai'' ''gpt-4'' = 1 / 2"
    by (simp add: performanceScore_def slow_local_manager_stats)
  have "total (calculateProviderScore slow_local_manager plain_request ''ollama'' ''llama2'' ollama_config)
       < total (calculateProviderScore slow_local_manager plain_request ''openai'' ''gpt-4'' openai_config)"
    unfolding total_calculateProviderScore p1 p2 c availabilityScore_available [OF av(1)]
      availabilityScore_available [OF av(2)]
    by (simp add: costScore_def ollama_config_def openai_config_def)
  with av c pr show ?thesis by (simp add: availabilityScore_available)
qed

section \<open>Comparison mode\<close>

lemma compare_target:
  assumes "i < 3"
  shows "compare_providers ! i \<noteq> []" "compare_providers ! i \<noteq> ''auto''"
proof -
  from assms have "i = 0 \<or> i = 1 \<or> i = 2" by auto
  then show "compare_providers ! i \<noteq> []" "compare_providers ! i \<noteq> ''auto''"
    by (auto simp: compare_providers_def)
qed

lemma assembleResponse_registry:
  assumes "providerConfigs st' = providerConfigs st"
  shows "assembleResponse st' w request p m r = assembleResponse st w request p m r"
  using assms by (simp add: assembleResponse_def)

lemma executeRequest_registry:
  assumes "providers st' = providers st" "providerConfigs st' = providerConfigs st"
  shows "executeRequest st' w request p m = executeRequest st w request p m"
  unfolding executeRequest_def assms(1) assembleResponse_registry [OF assms(2)] ..

lemma updateStats_registry:
  "providers (updateStats st p m response lat date) = providers st"
  "providerConfigs (updateStats st p m response lat date) = providerConfigs st"
  by (simp_all add: updateStats_def Let_def split: option.splits)

lemma processRequest_registry:
  "providers (snd (processRequest st w request)) = providers st"
  "providerConfigs (snd (processRequest st w request)) = providerConfigs st"
  by (simp_all add: processRequest_def Let_def updateStats_registry
      split: option.splits sum.splits prod.splits)

lemma compare_request_provider:
  "provider (compare_request base w i) = Some (compare_providers ! i)"
  "model (compare_request base w i) = Some (compare_models ! i)"
  by (simp_all add: compare_request_def)

lemma compare_one_registry:
  "providers (snd (compare_one st w base i)) = providers st"
  "providerConfigs (snd (compare_one st w base i)) = providerConfigs st"
  using processRequest_registry [of st w "compare_request base w i"]
  by (auto simp: compare_one_def split: prod.splits sum.splits)

lemma compare_one_result:
  assumes "i < 3"
  shows "fst (compare_one st w base i) =
     (if isProviderAvailable st (compare_providers ! i)
      then (case executeRequest st w (compare_request base w i) (compare_providers ! i)
                  (Some (compare_models ! i)) of
              Inr response \<Rightarrow> Some \<lparr>cr_provider = compare_providers ! i,
                cr_model = compare_models ! i, cr_response = response\<rparr>
            | Inl e \<Rightarrow> None)
      else None)"
proof -
  have "fst (processRequest st w (compare_request base w i))
      = executeRequest st w (compare_request base w i) (compare_providers ! i)
          (model (compare_request base w i))"
    by (rule explicit_dispatch) (simp_all add: compare_request_provider compare_target [OF assms])
  then show ?thesis
    by (auto simp add: compare_one_def compare_request_provider split: prod.splits sum.splits)
qed

lemma compare_one_indep:
  assumes "i < 3" "providers st' = providers st" "providerConfigs st' = providerConfigs st"
  shows "fst (compare_one st' w base i) = fst (compare_one st w base i)"
  unfolding compare_one_result [OF assms(1)] executeRequest_registry [OF assms(2,3)]
  by (simp add: isProviderAvailable_def assms(2))

lemma compare_all_results:
  assumes "\<forall>i \<in> set is. i < 3" "providers st' = providers st"
    "providerConfigs st' = providerConfigs st"
  shows "fst (compare_all st' ws base is) = map (\<lambda>i. fst (compare_one st (ws i) base i)) is"
  using assms
proof (induction "is" arbitrary: st')
  case Nil
  then show ?case by simp
next
  case (Cons i "is")
  obtain r st1 where o: "compare_one st' (ws i) base i = (r, st1)"
    by (cases "compare_one st' (ws i) base i")
  from Cons.prems have i: "i < 3" and rest: "\<forall>i \<in> set is. i < 3" by simp_all
  from compare_one_registry [of st' "ws i" base i] o Cons.prems(2,3)
  have reg: "providers st1 = providers st" "providerConfigs st1 = providerConfigs st"
    by simp_all
  from compare_one_indep [OF i Cons.prems(2,3), of "ws i" base] o
  have r: "r = fst (compare_one st (ws i) base i)" by simp
  from Cons.IH [OF rest reg] have "fst (compare_all st1 ws base is)
      = map (\<lambda>i. fst (compare_one st (ws i) base i)) is" .
  with o r show ?case
    by (cases "compare_all st1 ws base is") simp
qed

lemma length_valid:
  "length (map the (filter (\<lambda>r. r \<noteq> None) (map f is)))
     = length is - length (filter (\<lambda>i. f i = None) is)"
proof -
  have "length (filter (\<lambda>i. f i \<noteq> None) is) + length (filter (\<lambda>i. f i = None) is) = length is"
    using sum_length_filter_compl [of "\<lambda>i. f i \<noteq> None" "is"] by simp
  then show ?thesis by (simp add: filter_map comp_def)
qed

lemma filter_shorter_iff:
  "length (filter P xs) < length xs \<longleftrightarrow> (\<exists>x \<in> set xs. \<not> P x)"
  by (induction xs) (auto simp: less_Suc_eq_le)

lemma compare_one_fst:
  "fst (compare_one st w base i) =
     (if isProviderAvailable st (compare_providers ! i)
      then (case fst (processRequest st w (compare_request base w i)) of
              Inr response \<Rightarrow> Some \<lparr>cr_provider = compare_providers ! i,
                cr_model = compare_models ! i, cr_response = response\<rparr>
            | Inl e \<Rightarrow> None)
      else None)"
  by (cases "processRequest st w (compare_request base w i)")
    (simp add: compare_one_def split: sum.splits)

text \<open>
  A prompt of white space only, ASCII or not, is refused before any target runs.
\<close>

lemma trim_examples:
  "trim '' hello world  '' = ''hello world''"
  "trim [CHR 0xC2, CHR 0xA0] = []"
  "trim [CHR 0x20, CHR 0xE2, CHR 0x80, CHR 0xA8, CHR 0xEF, CHR 0xBB, CHR 0xBF, CHR 0x09] = []"
  "trim [CHR 0xC3, CHR 0xA0] = [CHR 0xC3, CHR 0xA0]"
  by (simp_all add: trim_def white_space_def)

lemma blank_prompt_refused:
  assumes "trim (c_prompt cmd) = []"
  shows "processCompareCommand st ws date subscription cmd uid tid channelId =
     (Inr (CompareFailure ''Please provide a prompt to compare across models. Example: `/ai-compare Explain quantum computing`''), st)"
  using assms by (simp add: processCompareCommand_def)

lemma processCompareCommand_run:
  assumes "trim (c_prompt cmd) \<noteq> []"
    and "compare_all st ws (compare_baseRequest sub cmd uid tid channelId date) [0..<3]
           = (results, st1)"
  shows "processCompareCommand st ws date (Some sub) cmd uid tid channelId =
     (Inr (if length (map the (filter (\<lambda>r. r \<noteq> None) results)) = 0
           then CompareFailure ''No providers available for comparison. Please try again later.''
           else CompareSuccess (map the (filter (\<lambda>r. r \<noteq> None) results))
              \<lparr>uu_requests = length (map the (filter (\<lambda>r. r \<noteq> None) results)),
               uu_tokens = foldl (\<lambda>sum r. sum + totalTokens (usage (cr_response r))) 0
                 (map the (filter (\<lambda>r. r \<noteq> None) results)),
               uu_cost = foldl (\<lambda>sum r. sum + cost (usage (cr_response r))) 0
                 (map the (filter (\<lambda>r. r \<noteq> None) results))\<rparr>), st1)"
proof -
  have n: "length compare_providers = 3" by (simp add: compare_providers_def)
  show ?thesis
    unfolding processCompareCommand_def n using assms
    by (simp add: Let_def)
qed

text \<open>
  Claim C8. For a prompt that \<open>trim\<close> does not empty, comparison mode runs the three fixed
  targets; its valid results are exactly the results of the targets whose backend is
  available and whose dispatch returns a response, in the order of the targets; a
  target that fails is left out and fails nothing else; the command reports failure
  exactly when no target succeeds, and with one failure of three it returns two results
  and succeeds.
\<close>

theorem comparison_mode:
  assumes nonblank: "trim (c_prompt cmd) \<noteq> []" and encoded: "utf8 (c_prompt cmd)"
  shows "\<exists>rep st'.
     processCompareCommand st ws date (Some sub) cmd uid tid channelId = (Inr rep, st')
     \<and> validResults rep =
         map the (filter (\<lambda>r. r \<noteq> None)
           (map (\<lambda>i. fst (compare_one st (ws i)
                   (compare_baseRequest sub cmd uid tid channelId date) i)) [0..<3]))
     \<and> (success rep \<longleftrightarrow>
          (\<exists>i < 3. fst (compare_one st (ws i)
                   (compare_baseRequest sub cmd uid tid channelId date) i) \<noteq> None))
     \<and> (length (filter (\<lambda>i. fst (compare_one st (ws i)
                   (compare_baseRequest sub cmd uid tid channelId date) i) = None) [0..<3]) = 1
          \<longrightarrow> length (validResults rep) = 2 \<and> success rep)
     \<and> (\<forall>i < 3. fst (compare_one st (ws i)
                   (compare_baseRequest sub cmd uid tid channelId date) i) =
          (if isProviderAvailable st (compare_providers ! i)
           then (case fst (processRequest st (ws i)
                     (compare_request (compare_baseRequest sub cmd uid tid channelId date)
                        (ws i) i)) of
                   Inr response \<Rightarrow> Some \<lparr>cr_provider = compare_providers ! i,
                     cr_model = compare_models ! i, cr_response = response\<rparr>
                 | Inl e \<Rightarrow> None)
           else None))"
proof -
  let ?base = "compare_baseRequest sub cmd uid tid channelId date"
  let ?f = "\<lambda>i. fst (compare_one st (ws i) ?base i)"
  let ?valid = "map the (filter (\<lambda>r. r \<noteq> None) (map ?f [0..<3]))"
  obtain results st1 where c: "compare_all st ws ?base [0..<3] = (results, st1)"
    by (cases "compare_all st ws ?base [0..<3]")
  have "fst (compare_all st ws ?base [0..<3]) = map ?f [0..<3]"
    by (rule compare_all_results) simp_all
  with c have results: "results = map ?f [0..<3]" by simp
  define valid where "valid = ?valid"
  define rep where "rep =
    (if length valid = 0
     then CompareFailure ''No providers available for comparison. Please try again later.''
     else CompareSuccess valid
        \<lparr>uu_requests = length valid,
         uu_tokens = foldl (\<lambda>sum r. sum + totalTokens (usage (cr_response r))) 0 valid,
         uu_cost = foldl (\<lambda>sum r. sum + cost (usage (cr_response r))) 0 valid\<rparr>)"
  have run: "processCompareCommand st ws date (Some sub) cmd uid tid channelId = (Inr rep, st1)"
    using processCompareCommand_run [OF nonblank c] unfolding results rep_def valid_def .
  have v: "validResults rep = valid"
    by (cases valid) (simp_all add: rep_def validResults_def)
  have s: "success rep \<longleftrightarrow> valid \<noteq> []"
    by (cases valid) (simp_all add: rep_def success_def)
  have l: "length valid = 3 - length (filter (\<lambda>i. ?f i = None) [0..<3])"
    unfolding valid_def using length_valid [of ?f "[0..<3]"] by simp
  have "valid \<noteq> [] \<longleftrightarrow> length (filter (\<lambda>i. ?f i = None) [0..<3]) < length [0..<3]"
    using l by (cases valid) auto
  then have s': "valid \<noteq> [] \<longleftrightarrow> (\<exists>i < 3. ?f i \<noteq> None)"
    unfolding filter_shorter_iff by auto
  have two: "length (filter (\<lambda>i. ?f i = None) [0..<3]) = 1
          \<longrightarrow> length (validResults rep) = 2 \<and> success rep"
  proof
    assume "length (filter (\<lambda>i. ?f i = None) [0..<3]) = 1"
    with l have "length valid = 2" by simp
    then show "length (validResults rep) = 2 \<and> success rep"
      unfolding v s by auto
  qed
  have each: "\<forall>i < 3. ?f i =
          (if isProviderAvailable st (compare_providers ! i)
           then (case fst (processRequest st (ws i) (compare_request ?base (ws i) i)) of
                   Inr response \<Rightarrow> Some \<lparr>cr_provider = compare_providers ! i,
                     cr_model = compare_models ! i, cr_response = response\<rparr>
                 | Inl e \<Rightarrow> None)
           else None)"
    by (simp only: compare_one_fst) simp
  show ?thesis
  proof (intro exI conjI)
    show "processCompareCommand st ws date (Some sub) cmd uid tid channelId = (Inr rep, st1)"
      by (rule run)
    show "validResults rep = ?valid"
      using v unfolding valid_def .
    show "success rep \<longleftrightarrow> (\<exists>i < 3. ?f i \<noteq> None)"
      using s s' by simp
    show "length (filter (\<lambda>i. ?f i = None) [0..<3]) = 1
          \<longrightarrow> length (validResults rep) = 2 \<and> success rep"
      by (rule two)
    show "\<forall>i < 3. ?f i =
          (if isProviderAvailable st (compare_providers ! i)
           then (case fst (processRequest st (ws i) (compare_request ?base (ws i) i)) of
                   Inr response \<Rightarrow> Some \<lparr>cr_provider = compare_providers ! i,
                     cr_model = compare_models ! i, cr_response = response\<rparr>
                 | Inl e \<Rightarrow> None)
           else None)"
      by (rule each)
  qed
qed

lemma calm_custom:
  "processCustomRequest calm_world inst request mdl =
     Inr \<lparr>a_content = ''hi'',
       a_usage = Some \<lparr>prompt_tokens = 0, completion_tokens = 0, total_tokens = 0\<rparr>\<rparr>"
  by (simp add: processCustomRequest_def calm_world_def first_content_def str_or_def)

lemma mixed_manager_registry:
  "providers mixed_manager = initializeProviders mixed_env"
  "providerConfigs mixed_manager = initializeProviderConfigs"
  by (simp_all add: mixed_manager_def new_LLMProviderManager_def)

lemma mixed_env_endpoints:
  "CUSTOM_LLM_ENDPOINTS mixed_env = Some ''local:localhost''"
  "''local:localhost'' \<in> set (split_str ''local:localhost'' CHR '','')"
  "split_str ''local:localhost'' CHR '':'' = ''local'' # ''localhost'' # []"
  by (simp_all add: mixed_env_def)

lemma routing_available:
  assumes "providerConfigs st = initializeProviderConfigs" "isProviderAvailable st ''openai''"
  shows "\<exists>d. smartRouting st request = Inr d"
proof -
  from assms(2) have "''openai'' \<in> set (map_keys (providers st))"
    by (simp add: map_keys_available)
  moreover have "map_get (providerConfigs st) ''openai'' = Some openai_config
      \<and> models openai_config \<noteq> []"
    unfolding assms(1) by (simp add: initial_configs openai_config_def)
  ultimately have "\<exists>p \<in> set (map_keys (providers st)). \<exists>cfg.
          map_get (providerConfigs st) p = Some cfg \<and> models cfg \<noteq> []"
    by blast
  then show ?thesis
    unfolding smartRouting_decides all_scores_empty by simp
qed

lemma mixed_manager_openai: "isProviderAvailable mixed_manager ''openai''"
  by (simp add: isProviderAvailable_def map_has_def mixed_manager_def mixed_env_def
      new_LLMProviderManager_def initializeProviders_def initializeCustomEndpoints_def
      truthy_str_def no_env_def register_endpoint_def)

theorem custom_backends_not_routed_witness:
  "isProviderAvailable mixed_manager ''custom_local''
   \<and> fst (processRequest mixed_manager calm_world custom_request) =
       Inr (assembleResponse mixed_manager calm_world custom_request ''custom_local'' (Some ''m'')
         \<lparr>a_content = ''hi'',
           a_usage = Some \<lparr>prompt_tokens = 0, completion_tokens = 0, total_tokens = 0\<rparr>\<rparr>)
   \<and> (\<exists>d. smartRouting mixed_manager plain_request = Inr d
         \<and> \<not> startsWith (selectedProvider d) ''custom_'')"
proof -
  note t = custom_backends_not_routed [OF mixed_env_endpoints _ _ mixed_manager_registry,
      where request = custom_request and w = calm_world and request' = plain_request]
  have p: "provider custom_request = Some (''custom_'' @ ''local'')"
    "model custom_request = Some ''m''"
    by (simp_all add: custom_request_def plain_request_def)
  from t have a: "isProviderAvailable mixed_manager (''custom_'' @ ''local'')" by simp
  from t p(1) obtain u where
    "fst (processRequest mixed_manager calm_world custom_request) =
       map_sum id (assembleResponse mixed_manager calm_world custom_request
           (''custom_'' @ ''local'') (model custom_request))
         (processCustomRequest calm_world (CustomEndpoint u) custom_request (model custom_request))"
    by auto
  then have b: "fst (processRequest mixed_manager calm_world custom_request) =
       Inr (assembleResponse mixed_manager calm_world custom_request (''custom_'' @ ''local'')
         (Some ''m'')
         \<lparr>a_content = ''hi'',
           a_usage = Some \<lparr>prompt_tokens = 0, completion_tokens = 0, total_tokens = 0\<rparr>\<rparr>)"
    unfolding calm_custom p(2) by simp
  from routing_available [OF mixed_manager_registry(2) mixed_manager_openai]
  obtain d where d: "smartRouting mixed_manager plain_request = Inr d" by blast
  with t have "\<not> startsWith (selectedProvider d) ''custom_''" by simp
  with a b d show ?thesis by auto
qed

lemma compare_outcomes:
  "map_option cr_provider (fst (compare_one cloud_manager calm_world base 0)) = Some ''openai''"
  "map_option cr_provider (fst (compare_one cloud_manager calm_world base (Suc 0))) = Some ''anthropic''"
  "fst (compare_one cloud_manager calm_world base 2) = None"
  by (simp_all add: compare_one_result executeRequest_def callAdapter_def
      processOpenAIRequest_def processAnthropicRequest_def processGroqRequest_def
      cloud_manager_providers calm_world_def compare_providers_def
      isProviderAvailable_def map_has_def map_get_def)

lemma compare_command_prompt:
  "trim (c_prompt compare_command) \<noteq> []" "utf8 (c_prompt compare_command)"
  by (simp_all add: compare_command_def trim_def white_space_def)

theorem comparison_mode_witness:
  "\<exists>rep st'.
     processCompareCommand cloud_manager calm_worlds 0 (Some free_subscription) compare_command
        ''u'' ''t'' ''c'' = (Inr rep, st')
     \<and> map cr_provider (validResults rep) = [''openai'', ''anthropic'']
     \<and> success rep"
proof -
  let ?base = "compare_baseRequest free_subscription compare_command ''u'' ''t'' ''c'' 0"
  from comparison_mode [OF compare_command_prompt, of cloud_manager calm_worlds 0
      free_subscription "''u''" "''t''" "''c''"]
  obtain rep st' where
    run: "processCompareCommand cloud_manager calm_worlds 0 (Some free_subscription)
        compare_command ''u'' ''t'' ''c'' = (Inr rep, st')"
    and v: "validResults rep =
         map the (filter (\<lambda>r. r \<noteq> None)
           (map (\<lambda>i. fst (compare_one cloud_manager (calm_worlds i) ?base i)) [0..<3]))"
    and s: "success rep \<longleftrightarrow>
          (\<exists>i < 3. fst (compare_one cloud_manager (calm_worlds i) ?base i) \<noteq> None)"
    by blast
  have u: "[0..<3] = [0, Suc 0, 2]" by (simp add: upt_rec)
  from compare_outcomes(1) [of ?base] obtain x0
    where x0: "fst (compare_one cloud_manager calm_world ?base 0) = Some x0"
      "cr_provider x0 = ''openai''" by auto
  from compare_outcomes(2) [of ?base] obtain x1
    where x1: "fst (compare_one cloud_manager calm_world ?base (Suc 0)) = Some x1"
      "cr_provider x1 = ''anthropic''" by auto
  have "validResults rep = [x0, x1]"
    unfolding v u by (simp add: calm_worlds_def x0 x1 compare_outcomes(3))
  then have m: "map cr_provider (validResults rep) = [''openai'', ''anthropic'']"
    by (simp add: x0 x1)
  from x0(1) have "\<exists>i < 3. fst (compare_one cloud_manager (calm_worlds i) ?base i) \<noteq> None"
    by (intro exI [of _ 0]) (simp add: calm_worlds_def)
  with s have "success rep" by simp
  with run m show ?thesis by (intro exI conjI)
qed

section \<open>Conversation context\<close>















end
